theory Spec2Isabelle
  imports
    Main
    "HOL-Library.Word"
    "HOL-Library.Sublist"
    "HOL-Library.Char_ord"
    "HOL-Library.List_Lexorder"
begin

unbundle bit_operations_syntax

section \<open>The news aggregation pipeline of backend/server.py\<close>

text \<open>
  A Python \<open>str\<close> is modelled as a \<open>string\<close>: one \<open>char\<close> per code point, for the code
  points below 256. Every literal of the source (keyword stems, feed names, region codes) lies
  in that range. Strings are compared as Python compares them, lexicographically by code
  point (\<open>Char_ord\<close>, \<open>List_Lexorder\<close>).

  Two functions of the Python standard library are tables too large to embed:
  \<open>html.unescape\<close> is a parameter \<open>unescape\<close> of every function that reaches it, and
  \<open>str.lower\<close> is written out for the code points below 256, where it maps character by
  character.
\<close>

subsection \<open>Text helpers: \<open>str.lower\<close>, \<open>\s\<close>, \<open>str.strip\<close>, \<open>re.sub\<close>\<close>

definition lower_char :: "char \<Rightarrow> char" where
  "lower_char c =
     (let n = (of_char c :: nat)
      in if (65 \<le> n \<and> n \<le> 90) \<or> (192 \<le> n \<and> n \<le> 222 \<and> n \<noteq> 215)
         then char_of (n + 32) else c)"

definition lower :: "string \<Rightarrow> string" where
  "lower s = map lower_char s"

text \<open>The characters \<open>\s\<close> matches in a \<open>str\<close> pattern, which are those \<open>str.strip()\<close> removes.\<close>

definition isspace :: "char \<Rightarrow> bool" where
  "isspace c =
     (c \<in> set [CHR 0x09, CHR 0x0A, CHR 0x0B, CHR 0x0C, CHR 0x0D, CHR 0x1C, CHR 0x1D,
               CHR 0x1E, CHR 0x1F, CHR 0x20, CHR 0x85, CHR 0xA0])"

definition strip :: "string \<Rightarrow> string" where
  "strip s = rev (dropWhile isspace (rev (dropWhile isspace s)))"

text \<open>
  \<open>re.sub(r'<[^>]+>', '', text)\<close>: scanning from the left, a \<open><\<close> followed by at least one
  character other than \<open>>\<close> and then a \<open>>\<close> is removed up to and including that \<open>>\<close>; any
  other character is kept.
\<close>

function strip_tags :: "string \<Rightarrow> string" where
  "strip_tags [] = []"
| "strip_tags (c # cs) =
     (if c = CHR ''<'' \<and> takeWhile (\<lambda>x. x \<noteq> CHR ''>'') cs \<noteq> []
           \<and> dropWhile (\<lambda>x. x \<noteq> CHR ''>'') cs \<noteq> []
      then strip_tags (tl (dropWhile (\<lambda>x. x \<noteq> CHR ''>'') cs))
      else c # strip_tags cs)"
  by pat_completeness auto
termination
proof (relation "measure length")
  show "wf (measure (length :: string \<Rightarrow> nat))" by simp
next
  fix c :: char and cs :: string
  have "length (tl (dropWhile (\<lambda>x. x \<noteq> CHR ''>'') cs)) \<le> length cs"
    using length_dropWhile_le [of "\<lambda>x. x \<noteq> CHR ''>''" cs] by simp
  then show "(tl (dropWhile (\<lambda>x. x \<noteq> CHR ''>'') cs), c # cs) \<in> measure length"
    by simp
next
  fix c :: char and cs :: string
  show "(cs, c # cs) \<in> measure length" by simp
qed

text \<open>\<open>re.sub(r'\s+', ' ', clean)\<close>: every maximal run of whitespace becomes one space.\<close>

function collapse_ws :: "string \<Rightarrow> string" where
  "collapse_ws [] = []"
| "collapse_ws (c # cs) =
     (if isspace c then CHR '' '' # collapse_ws (dropWhile isspace cs)
      else c # collapse_ws cs)"
  by pat_completeness auto
termination
proof (relation "measure length")
  show "wf (measure (length :: string \<Rightarrow> nat))" by simp
next
  fix c :: char and cs :: string
  show "(dropWhile isspace cs, c # cs) \<in> measure length"
    using length_dropWhile_le [of isspace cs] by simp
next
  fix c :: char and cs :: string
  show "(cs, c # cs) \<in> measure length" by simp
qed

subsection \<open>Values of untyped feed fields and the errors of the pipeline\<close>

text \<open>
  A feed entry is a dictionary of untyped values. Where the code calls a \<open>str\<close> method on
  such a value, the model distinguishes a string, \<open>None\<close>, and any other (truthy,
  non-string) object.
\<close>

datatype pyval = Str string | NoneV | Other

datatype py_error = TypeError | AttributeError | ValueError | TransportError | ParseError

subsection \<open>\<open>clean_html\<close>\<close>

definition clean_text :: "(string \<Rightarrow> string) \<Rightarrow> string \<Rightarrow> string" where
  "clean_text unescape text = strip (collapse_ws (unescape (strip_tags text)))"

definition clean_html :: "(string \<Rightarrow> string) \<Rightarrow> pyval \<Rightarrow> py_error + string" where
  "clean_html unescape text =
     (case text of
        NoneV \<Rightarrow> Inr []
      | Other \<Rightarrow> Inl TypeError
      | Str t \<Rightarrow>
          if t = [] then Inr []
          else (let clean = clean_text unescape t
                in Inr (if length clean > 500 then take 500 clean @ ''...'' else clean)))"

subsection \<open>\<open>categorize_article\<close>\<close>

definition NEWS_CATEGORIES :: "(string \<times> string list) list" where
  "NEWS_CATEGORIES =
    [(''vehicles'', [''fahrzeug'', ''vehicle'', ''auto'', ''car'', ''model'', ''modell'', ''ev'',
        ''elektroauto'', ''automobil'', ''vozilo'']),
     (''battery'', [''batterie'', ''battery'', ''akku'', ''zelle'', ''cell'', ''reichweite'',
        ''range'', ''degradation'', ''lebensdauer'', ''baterija'']),
     (''charging'', [''laden'', ''charging'', ''ladestation'', ''charger'',
        ''lades'' @ [CHR 0xC3, CHR 0xA4] @ ''ule'', ''wallbox'', ''schnellladen'', ''dc'', ''ac'',
        ''punjenje'', ''punja'' @ [CHR 0xC4]]),
     (''policy'', [''f'' @ [CHR 0xC3, CHR 0xB6] @ ''rderung'', ''subsidy'', ''gesetz'', ''law'',
        ''regulierung'', ''regulation'', ''steuer'', ''tax'', ''politik'', ''policy'', ''zakon'',
        ''poticaj'']),
     (''market'', [''markt'', ''market'', ''verkauf'', ''sales'', ''zulassung'', ''registration'',
        ''statistik'', ''statistic'', ''preis'', ''price'',
        ''tr'' @ [CHR 0xC5, CHR 0xBE] @ ''i'' @ [CHR 0xC5, CHR 0xA1] @ ''te'']),
     (''technology'', [''technologie'', ''technology'', ''update'', ''software'', ''ota'',
        ''autopilot'', ''fsd'', ''tuning'', ''upgrade'', ''tehnologija'']),
     (''infrastructure'', [''infrastruktur'', ''infrastructure'', ''netzwerk'', ''network'',
        ''ausbau'', ''expansion'', ''strom'', ''grid'', ''mre'' @ [CHR 0xC5, CHR 0xBE] @ ''a''])]"

text \<open>The loop over the categories: a category is appended once, at its first matching keyword.\<close>

definition matching_categories :: "string \<Rightarrow> string list" where
  "matching_categories text =
     map fst (filter (\<lambda>(cat, keywords). \<exists>keyword \<in> set keywords. sublist keyword text)
                NEWS_CATEGORIES)"

definition categorize_article :: "string \<Rightarrow> string \<Rightarrow> string list" where
  "categorize_article title summary =
     (let text = lower (title @ '' '' @ summary);
          categories = matching_categories text
      in if categories = [] then [''general''] else categories)"

subsection \<open>\<open>generate_article_id\<close>: \<open>hashlib.md5(url.encode()).hexdigest()[:12]\<close>\<close>

text \<open>\<open>str.encode()\<close> is UTF-8: one byte below 128, two bytes from 128 to 255.\<close>

definition encode :: "string \<Rightarrow> 8 word list" where
  "encode s =
     concat (map (\<lambda>c. let n = (of_char c :: nat)
                       in if n < 128 then [of_nat n]
                          else [of_nat (192 + n div 64), of_nat (128 + n mod 64)]) s)"

definition md5_s :: "nat list" where
  "md5_s =
    [7, 12, 17, 22, 7, 12, 17, 22, 7, 12, 17, 22, 7, 12, 17, 22,
     5, 9, 14, 20, 5, 9, 14, 20, 5, 9, 14, 20, 5, 9, 14, 20,
     4, 11, 16, 23, 4, 11, 16, 23, 4, 11, 16, 23, 4, 11, 16, 23,
     6, 10, 15, 21, 6, 10, 15, 21, 6, 10, 15, 21, 6, 10, 15, 21]"

definition md5_K :: "32 word list" where
  "md5_K =
    [0xd76aa478, 0xe8c7b756, 0x242070db, 0xc1bdceee,
     0xf57c0faf, 0x4787c62a, 0xa8304613, 0xfd469501,
     0x698098d8, 0x8b44f7af, 0xffff5bb1, 0x895cd7be,
     0x6b901122, 0xfd987193, 0xa679438e, 0x49b40821,
     0xf61e2562, 0xc040b340, 0x265e5a51, 0xe9b6c7aa,
     0xd62f105d, 0x02441453, 0xd8a1e681, 0xe7d3fbc8,
     0x21e1cde6, 0xc33707d6, 0xf4d50d87, 0x455a14ed,
     0xa9e3e905, 0xfcefa3f8, 0x676f02d9, 0x8d2a4c8a,
     0xfffa3942, 0x8771f681, 0x6d9d6122, 0xfde5380c,
     0xa4beea44, 0x4bdecfa9, 0xf6bb4b60, 0xbebfbc70,
     0x289b7ec6, 0xeaa127fa, 0xd4ef3085, 0x04881d05,
     0xd9d4d039, 0xe6db99e5, 0x1fa27cf8, 0xc4ac5665,
     0xf4292244, 0x432aff97, 0xab9423a7, 0xfc93a039,
     0x655b59c3, 0x8f0ccc92, 0xffeff47d, 0x85845dd1,
     0x6fa87e4f, 0xfe2ce6e0, 0xa3014314, 0x4e0811a1,
     0xf7537e82, 0xbd3af235, 0x2ad7d2bb, 0xeb86d391]"

definition le_bytes :: "nat \<Rightarrow> 'a::len word \<Rightarrow> 8 word list" where
  "le_bytes k w = map (\<lambda>i. ucast (drop_bit (8 * i) w)) [0..<k]"

definition le_word :: "8 word list \<Rightarrow> 32 word" where
  "le_word bs = foldr (\<lambda>b w. ucast b OR push_bit 8 w) bs 0"

definition md5_pad :: "8 word list \<Rightarrow> 8 word list" where
  "md5_pad msg =
     msg @ [0x80] @ replicate ((119 - length msg mod 64) mod 64) 0
       @ le_bytes 8 (of_nat (8 * length msg) :: 64 word)"

definition md5_blocks :: "8 word list \<Rightarrow> 32 word list list" where
  "md5_blocks bs =
     map (\<lambda>i. map (\<lambda>j. le_word (take 4 (drop (64 * i + 4 * j) bs))) [0..<16])
       [0..<length bs div 64]"

type_synonym md5_state = "32 word \<times> 32 word \<times> 32 word \<times> 32 word"

definition md5_step :: "32 word list \<Rightarrow> md5_state \<Rightarrow> nat \<Rightarrow> md5_state" where
  "md5_step M st i =
     (case st of (a, b, c, d) \<Rightarrow>
        let (f, g) =
              (if i < 16 then ((b AND c) OR (NOT b AND d), i)
               else if i < 32 then ((d AND b) OR (NOT d AND c), (5 * i + 1) mod 16)
               else if i < 48 then (b XOR c XOR d, (3 * i + 5) mod 16)
               else (c XOR (b OR NOT d), (7 * i) mod 16))
        in (d, b + word_rotl (md5_s ! i) (a + f + md5_K ! i + M ! g), b, c))"

definition md5_block :: "md5_state \<Rightarrow> 32 word list \<Rightarrow> md5_state" where
  "md5_block st M =
     (case st of (a0, b0, c0, d0) \<Rightarrow>
        case foldl (md5_step M) st [0..<64] of (a, b, c, d) \<Rightarrow>
          (a0 + a, b0 + b, c0 + c, d0 + d))"

definition md5 :: "8 word list \<Rightarrow> 8 word list" where
  "md5 msg =
     (case foldl md5_block (0x67452301, 0xefcdab89, 0x98badcfe, 0x10325476)
             (md5_blocks (md5_pad msg)) of
        (a, b, c, d) \<Rightarrow> le_bytes 4 a @ le_bytes 4 b @ le_bytes 4 c @ le_bytes 4 d)"

definition hexdigit :: "nat \<Rightarrow> char" where
  "hexdigit n = ''0123456789abcdef'' ! (n mod 16)"

definition hexdigest :: "8 word list \<Rightarrow> string" where
  "hexdigest bs = concat (map (\<lambda>b. [hexdigit (unat b div 16), hexdigit (unat b mod 16)]) bs)"

definition generate_article_id :: "string \<Rightarrow> string" where
  "generate_article_id url = take 12 (hexdigest (md5 (encode url)))"

subsection \<open>Timestamps: \<open>datetime(*t[:6], tzinfo=timezone.utc)\<close> and \<open>isoformat()\<close>\<close>

record struct_time =
  tm_year :: int
  tm_mon :: int
  tm_mday :: int
  tm_hour :: int
  tm_min :: int
  tm_sec :: int

record datetime =
  year :: int
  month :: int
  day :: int
  hour :: int
  minute :: int
  second :: int
  microsecond :: int

definition is_leap :: "int \<Rightarrow> bool" where
  "is_leap y = (y mod 4 = 0 \<and> (y mod 100 \<noteq> 0 \<or> y mod 400 = 0))"

definition days_in_month :: "int \<Rightarrow> int \<Rightarrow> int" where
  "days_in_month y m =
     (if m = 2 then (if is_leap y then 29 else 28)
      else if m = 4 \<or> m = 6 \<or> m = 9 \<or> m = 11 then 30 else 31)"

text \<open>The constructor raises \<open>ValueError\<close> on a field out of range.\<close>

definition mk_datetime :: "struct_time \<Rightarrow> py_error + datetime" where
  "mk_datetime t =
     (if 1 \<le> tm_year t \<and> tm_year t \<le> 9999 \<and> 1 \<le> tm_mon t \<and> tm_mon t \<le> 12
         \<and> 1 \<le> tm_mday t \<and> tm_mday t \<le> days_in_month (tm_year t) (tm_mon t)
         \<and> 0 \<le> tm_hour t \<and> tm_hour t \<le> 23 \<and> 0 \<le> tm_min t \<and> tm_min t \<le> 59
         \<and> 0 \<le> tm_sec t \<and> tm_sec t \<le> 59
      then Inr \<lparr>year = tm_year t, month = tm_mon t, day = tm_mday t, hour = tm_hour t,
                minute = tm_min t, second = tm_sec t, microsecond = 0\<rparr>
      else Inl ValueError)"

text \<open>Decimal digits, zero-padded to the widths \<open>isoformat()\<close> uses.\<close>

definition digit :: "int \<Rightarrow> char" where
  "digit v = ''0123456789'' ! nat (v mod 10)"

definition pad2 :: "int \<Rightarrow> string" where
  "pad2 v = [digit (v div 10), digit v]"

definition pad4 :: "int \<Rightarrow> string" where
  "pad4 v = [digit (v div 1000), digit (v div 100), digit (v div 10), digit v]"

definition pad6 :: "int \<Rightarrow> string" where
  "pad6 v = [digit (v div 100000), digit (v div 10000), digit (v div 1000), digit (v div 100),
             digit (v div 10), digit v]"

definition isoformat :: "datetime \<Rightarrow> string" where
  "isoformat dt =
     pad4 (year dt) @ ''-'' @ pad2 (month dt) @ ''-'' @ pad2 (day dt) @ ''T''
       @ pad2 (hour dt) @ '':'' @ pad2 (minute dt) @ '':'' @ pad2 (second dt)
       @ (if microsecond dt \<noteq> 0 then ''.'' @ pad6 (microsecond dt) else [])
       @ ''+00:00''"

subsection \<open>Feed sources, feed entries and articles\<close>

record feed_config =
  feed_url :: string
  feed_name :: string
  feed_lang :: string
  feed_region :: string

definition NEWS_FEEDS :: "(string \<times> feed_config list) list" where
  "NEWS_FEEDS =
    [(''swiss'',
      [\<lparr>feed_url = ''https://www.tcs.ch/de/testberichte-ratgeber/ratgeber/rss/elektromobilitaet.rss'',
        feed_name = ''TCS Elektromobilit'' @ [CHR 0xC3, CHR 0xA4] @ ''t'',
        feed_lang = ''de'', feed_region = ''CH''\<rparr>,
       \<lparr>feed_url = ''https://www.blick.ch/auto/rss.xml'', feed_name = ''Blick Auto'',
        feed_lang = ''de'', feed_region = ''CH''\<rparr>]),
     (''german'',
      [\<lparr>feed_url = ''https://www.electrive.net/feed/'', feed_name = ''Electrive.net'',
        feed_lang = ''de'', feed_region = ''DE''\<rparr>,
       \<lparr>feed_url = ''https://ecomento.de/feed/'', feed_name = ''Ecomento'',
        feed_lang = ''de'', feed_region = ''DE''\<rparr>,
       \<lparr>feed_url = ''https://www.elektroauto-news.net/feed/'', feed_name = ''Elektroauto-News'',
        feed_lang = ''de'', feed_region = ''DE''\<rparr>,
       \<lparr>feed_url = ''https://teslamag.de/feed'', feed_name = ''Teslamag'',
        feed_lang = ''de'', feed_region = ''DE''\<rparr>,
       \<lparr>feed_url = ''https://www.golem.de/rss.php?tp=auto'', feed_name = ''Golem Auto'',
        feed_lang = ''de'', feed_region = ''DE''\<rparr>]),
     (''international'',
      [\<lparr>feed_url = ''https://electrek.co/feed/'', feed_name = ''Electrek'',
        feed_lang = ''en'', feed_region = ''US''\<rparr>,
       \<lparr>feed_url = ''https://insideevs.com/rss/news/all/'', feed_name = ''InsideEVs'',
        feed_lang = ''en'', feed_region = ''US''\<rparr>,
       \<lparr>feed_url = ''https://cleantechnica.com/feed/'', feed_name = ''CleanTechnica'',
        feed_lang = ''en'', feed_region = ''US''\<rparr>,
       \<lparr>feed_url = ''https://www.greencarreports.com/rss/news'', feed_name = ''Green Car Reports'',
        feed_lang = ''en'', feed_region = ''US''\<rparr>,
       \<lparr>feed_url = ''https://chargedevs.com/feed/'', feed_name = ''Charged EVs'',
        feed_lang = ''en'', feed_region = ''US''\<rparr>]),
     (''balkan'',
      [\<lparr>feed_url = ''https://www.netokracija.rs/feed'', feed_name = ''Netokracija RS'',
        feed_lang = ''sr'', feed_region = ''RS''\<rparr>,
       \<lparr>feed_url = ''https://www.netokracija.com/feed'', feed_name = ''Netokracija HR'',
        feed_lang = ''hr'', feed_region = ''HR''\<rparr>,
       \<lparr>feed_url = ''https://www.automarket.hr/rss/vijesti'', feed_name = ''Automarket HR'',
        feed_lang = ''hr'', feed_region = ''HR''\<rparr>,
       \<lparr>feed_url = ''https://www.automobili.hr/rss.xml'', feed_name = ''Automobili HR'',
        feed_lang = ''hr'', feed_region = ''HR''\<rparr>])]"

text \<open>
  What the loop body reads of one parsed feed entry. An attribute the entry does not have,
  or whose value is falsy where the code tests it, is \<open>None\<close> (the empty list for the two
  list attributes). \<open>fetch_time\<close> is what \<open>datetime.now(timezone.utc)\<close> returns while this
  entry is processed.
\<close>

record entry =
  published_parsed :: "struct_time option"
  updated_parsed :: "struct_time option"
  entry_summary :: "pyval option"
  entry_description :: "pyval option"
  media_content :: "string option list"
  enclosures :: "(pyval option \<times> string option) list"
  entry_title :: "pyval option"
  entry_link :: "pyval option"
  fetch_time :: datetime

record article =
  art_id :: string
  title :: string
  summary :: string
  url :: string
  source :: string
  language :: string
  region :: string
  published :: "string option"
  image_url :: "string option"
  categories :: "string list"

subsection \<open>\<open>fetch_single_feed\<close>\<close>

text \<open>The publication date: \<open>published_parsed\<close>, else \<open>updated_parsed\<close>, else the fetch time;
  a constructor error falls back to the fetch time.\<close>

definition entry_pub_date :: "entry \<Rightarrow> datetime" where
  "entry_pub_date e =
     (case published_parsed e of
        Some t \<Rightarrow> (case mk_datetime t of Inr d \<Rightarrow> d | Inl _ \<Rightarrow> fetch_time e)
      | None \<Rightarrow>
          (case updated_parsed e of
             Some t \<Rightarrow> (case mk_datetime t of Inr d \<Rightarrow> d | Inl _ \<Rightarrow> fetch_time e)
           | None \<Rightarrow> fetch_time e))"

definition entry_summary_text :: "(string \<Rightarrow> string) \<Rightarrow> entry \<Rightarrow> py_error + string" where
  "entry_summary_text unescape e =
     (case entry_summary e of
        Some v \<Rightarrow> clean_html unescape v
      | None \<Rightarrow>
          (case entry_description e of
             Some v \<Rightarrow> clean_html unescape v
           | None \<Rightarrow> Inr []))"

text \<open>The loop over the enclosures: \<open>enc.get('type', '').startswith('image')\<close>.\<close>

fun first_image_enclosure :: "(pyval option \<times> string option) list \<Rightarrow> py_error + string option"
where
  "first_image_enclosure [] = Inr None"
| "first_image_enclosure ((ty, href) # encs) =
     (case ty of
        None \<Rightarrow> first_image_enclosure encs
      | Some (Str s) \<Rightarrow> if prefix ''image'' s then Inr href else first_image_enclosure encs
      | Some _ \<Rightarrow> Inl AttributeError)"

definition entry_image_url :: "entry \<Rightarrow> py_error + string option" where
  "entry_image_url e =
     (case media_content e of
        m # _ \<Rightarrow> Inr m
      | [] \<Rightarrow> first_image_enclosure (enclosures e))"

text \<open>One pass of the loop body: the article of an entry, or the exception it raises.\<close>

definition process_entry ::
  "(string \<Rightarrow> string) \<Rightarrow> feed_config \<Rightarrow> entry \<Rightarrow> py_error + article" where
  "process_entry unescape feed e =
     (let pub_date = entry_pub_date e in
      case entry_summary_text unescape e of
        Inl err \<Rightarrow> Inl err
      | Inr summ \<Rightarrow>
     (case entry_image_url e of
        Inl err \<Rightarrow> Inl err
      | Inr img \<Rightarrow>
     (case clean_html unescape (case entry_title e of None \<Rightarrow> Str ''Kein Titel'' | Some v \<Rightarrow> v) of
        Inl err \<Rightarrow> Inl err
      | Inr ttl \<Rightarrow>
     (case (case entry_link e of None \<Rightarrow> Str [] | Some v \<Rightarrow> v) of
        Str link \<Rightarrow>
          Inr \<lparr>art_id = generate_article_id link, title = ttl, summary = summ, url = link,
               source = feed_name feed, language = feed_lang feed, region = feed_region feed,
               published = Some (isoformat pub_date), image_url = img,
               categories = categorize_article ttl summ\<rparr>
      | _ \<Rightarrow> Inl AttributeError))))"

text \<open>
  The \<open>for\<close> loop inside the \<open>try\<close>: the articles appended so far, and the exception that
  ended the loop, if one did.
\<close>

fun process_entries ::
  "(string \<Rightarrow> string) \<Rightarrow> feed_config \<Rightarrow> entry list \<Rightarrow> article list \<times> py_error option" where
  "process_entries unescape feed [] = ([], None)"
| "process_entries unescape feed (e # es) =
     (case process_entry unescape feed e of
        Inl err \<Rightarrow> ([], Some err)
      | Inr a \<Rightarrow> (case process_entries unescape feed es of (as, r) \<Rightarrow> (a # as, r)))"

text \<open>
  What the network and the feed parser give for one source: \<open>client.get\<close> raises (a
  transport error, a timeout), or there is a response with its status code and what
  \<open>feedparser.parse\<close> makes of its text (the entries, or an exception).
\<close>

datatype http_outcome = Failed py_error | Response nat "py_error + entry list"

definition try_fetch ::
  "(string \<Rightarrow> string) \<Rightarrow> feed_config \<Rightarrow> http_outcome \<Rightarrow> article list \<times> py_error option" where
  "try_fetch unescape feed outcome =
     (case outcome of
        Failed err \<Rightarrow> ([], Some err)
      | Response status parsed \<Rightarrow>
          if status = 200
          then (case parsed of
                  Inl err \<Rightarrow> ([], Some err)
                | Inr entries \<Rightarrow> process_entries unescape feed (take 10 entries))
          else ([], None))"

text \<open>
  \<open>except Exception\<close> logs a warning and falls through to \<open>return articles\<close>. The result is
  a sum, as \<open>asyncio.gather(..., return_exceptions=True)\<close> sees it: \<open>Inl\<close> would be an
  exception leaving the function.
\<close>

definition fetch_single_feed ::
  "(string \<Rightarrow> string) \<Rightarrow> feed_config \<Rightarrow> http_outcome \<Rightarrow> py_error + article list" where
  "fetch_single_feed unescape feed outcome =
     (case try_fetch unescape feed outcome of (arts, _) \<Rightarrow> Inr arts)"

subsection \<open>\<open>fetch_all_feeds\<close>\<close>

definition all_feeds :: "feed_config list" where
  "all_feeds = concat (map snd NEWS_FEEDS)"

definition combine_results :: "(py_error + article list) list \<Rightarrow> article list" where
  "combine_results results =
     concat (map (\<lambda>result. case result of Inr arts \<Rightarrow> arts | Inl _ \<Rightarrow> []) results)"

text \<open>The sort key \<open>x.get('published', '') or ''\<close>.\<close>

definition published_key :: "article \<Rightarrow> string" where
  "published_key a = (case published a of None \<Rightarrow> [] | Some p \<Rightarrow> p)"

text \<open>\<open>list.sort(key=..., reverse=True)\<close> is stable: equal keys keep their order.\<close>

definition sort_newest_first :: "article list \<Rightarrow> article list" where
  "sort_newest_first arts = rev (sort_key published_key (rev arts))"

definition title_key :: "article \<Rightarrow> string" where
  "title_key a = take 50 (lower (title a))"

fun unique_articles :: "string set \<Rightarrow> article list \<Rightarrow> article list" where
  "unique_articles seen_titles [] = []"
| "unique_articles seen_titles (a # arts) =
     (if title_key a \<notin> seen_titles
      then a # unique_articles (insert (title_key a) seen_titles) arts
      else unique_articles seen_titles arts)"

definition merge_articles :: "(py_error + article list) list \<Rightarrow> article list" where
  "merge_articles results = unique_articles {} (sort_newest_first (combine_results results))"

text \<open>The aggregation over a list of sources; \<open>net\<close> is what each source answers.\<close>

definition fetch_feeds ::
  "(string \<Rightarrow> string) \<Rightarrow> feed_config list \<Rightarrow> (feed_config \<Rightarrow> http_outcome) \<Rightarrow> article list"
where
  "fetch_feeds unescape feeds net =
     merge_articles (map (\<lambda>feed. fetch_single_feed unescape feed (net feed)) feeds)"

definition fetch_all_feeds ::
  "(string \<Rightarrow> string) \<Rightarrow> (feed_config \<Rightarrow> http_outcome) \<Rightarrow> article list" where
  "fetch_all_feeds unescape net = fetch_feeds unescape all_feeds net"

subsection \<open>The cache and \<open>GET /news\<close>\<close>

text \<open>
  Clock readings are microseconds since the epoch. \<open>cache_duration\<close> is the entry of
  \<open>news_cache\<close> that is never assigned: one hour.
\<close>

record news_cache =
  articles :: "article list"
  last_updated :: "int option"

definition cache_duration :: int where
  "cache_duration = 3600 * 1000000"

definition initial_cache :: news_cache where
  "initial_cache = \<lparr>articles = [], last_updated = None\<rparr>"

record news_query =
  q_region :: "string option"
  q_category :: "string option"
  q_language :: "string option"
  q_limit :: int
  q_refresh :: bool

text \<open>What one request sees of the world: the clock when the cache is checked, the answers
  of the sources if they are fetched, and the clock when the new result is stored.\<close>

record world =
  now_checked :: int
  network :: "feed_config \<Rightarrow> http_outcome"
  now_stored :: int

text \<open>The response, without \<open>cache_age_minutes\<close> (a rounded float).\<close>

record response =
  r_articles :: "article list"
  total :: nat
  sources_count :: nat
  filters :: "string option \<times> string option \<times> string option"

definition region_codes :: "(string \<times> string list) list" where
  "region_codes =
     [(''swiss'', [''CH'']), (''german'', [''DE'']), (''international'', [''US'', ''UK'', ''EU'']),
      (''balkan'', [''RS'', ''HR'', ''SI'', ''BA''])]"

definition allowed_regions :: "string \<Rightarrow> string list" where
  "allowed_regions r = (case map_of region_codes r of Some codes \<Rightarrow> codes | None \<Rightarrow> [])"

text \<open>Python's truth value of an optional string: \<open>None\<close> and \<open>''\<close> are false.\<close>

definition truthy :: "string option \<Rightarrow> bool" where
  "truthy v = (case v of None \<Rightarrow> False | Some s \<Rightarrow> s \<noteq> [])"

text \<open>\<open>articles[:limit]\<close>; a negative limit counts from the end.\<close>

definition slice_to :: "int \<Rightarrow> 'a list \<Rightarrow> 'a list" where
  "slice_to limit xs =
     (if 0 \<le> limit then take (nat limit) xs else take (nat (int (length xs) + limit)) xs)"

definition apply_filters :: "news_query \<Rightarrow> article list \<Rightarrow> article list" where
  "apply_filters q arts =
     (let arts1 = (if truthy (q_region q)
                   then filter (\<lambda>a. region a \<in> set (allowed_regions (the (q_region q)))) arts
                   else arts);
          arts2 = (if truthy (q_language q)
                   then filter (\<lambda>a. language a = the (q_language q)) arts1
                   else arts1);
          arts3 = (if truthy (q_category q)
                   then filter (\<lambda>a. the (q_category q) \<in> set (categories a)) arts2
                   else arts2)
      in arts3)"

definition cache_valid :: "news_cache \<Rightarrow> int \<Rightarrow> bool \<Rightarrow> bool" where
  "cache_valid cache now refresh =
     (case last_updated cache of
        None \<Rightarrow> False
      | Some t \<Rightarrow> now - t < cache_duration \<and> length (articles cache) > 0 \<and> \<not> refresh)"

text \<open>The cache after the request, the number of aggregation passes it ran, and the response.\<close>

definition refresh_if_stale ::
  "(string \<Rightarrow> string) \<Rightarrow> news_cache \<Rightarrow> world \<Rightarrow> bool \<Rightarrow> news_cache \<times> nat" where
  "refresh_if_stale unescape cache w refresh =
     (if \<not> cache_valid cache (now_checked w) refresh
      then (\<lparr>articles = fetch_all_feeds unescape (network w), last_updated = Some (now_stored w)\<rparr>, 1)
      else (cache, 0))"

definition get_news ::
  "(string \<Rightarrow> string) \<Rightarrow> news_cache \<Rightarrow> world \<Rightarrow> news_query \<Rightarrow> news_cache \<times> nat \<times> response"
where
  "get_news unescape cache w q =
     (case refresh_if_stale unescape cache w (q_refresh q) of
        (cache', passes) \<Rightarrow>
          let arts = slice_to (q_limit q) (apply_filters q (articles cache'))
          in (cache', passes,
              \<lparr>r_articles = arts, total = length arts, sources_count = length all_feeds,
               filters = (q_region q, q_category q, q_language q)\<rparr>))"

subsection \<open>Auxiliary predicates of the proofs\<close>


text \<open>A source whose fetch fails: the request raises, the status is not 200, or the
  parser raises.\<close>

definition source_fails :: "http_outcome \<Rightarrow> bool" where
  "source_fails outcome =
     (case outcome of
        Failed _ \<Rightarrow> True
      | Response status parsed \<Rightarrow> status \<noteq> 200 \<or> isl parsed)"

text \<open>What every article made by the fetcher over the registry satisfies: its categories are
  labels of the taxonomy or \<open>general\<close>, and its language is that of a registered source.\<close>

definition known_categories :: "string list" where
  "known_categories = map fst NEWS_CATEGORIES @ [''general'']"

definition known_languages :: "string list" where
  "known_languages = map feed_lang all_feeds"

definition article_wf :: "article \<Rightarrow> bool" where
  "article_wf a =
     (set (categories a) \<subseteq> set known_categories \<and> language a \<in> set known_languages)"

definition cache_wf :: "news_cache \<Rightarrow> bool" where
  "cache_wf cache = (\<forall>a\<in>set (articles cache). article_wf a)"



subsection \<open>Example inputs\<close>

definition ex_feed_a :: feed_config where
  "ex_feed_a = \<lparr>feed_url = ''https://www.blick.ch/auto/rss.xml'', feed_name = ''Blick Auto'',
                 feed_lang = ''de'', feed_region = ''CH''\<rparr>"

definition ex_feed_b :: feed_config where
  "ex_feed_b = \<lparr>feed_url = ''https://www.electrive.net/feed/'', feed_name = ''Electrive.net'',
                 feed_lang = ''de'', feed_region = ''DE''\<rparr>"

definition ex_time :: datetime where
  "ex_time = \<lparr>year = 2024, month = 5, day = 1, hour = 13, minute = 0, second = 0,
               microsecond = 0\<rparr>"

text \<open>An entry with a title, a link and a publication time on 1 May 2024, fetched at 13:00.\<close>

definition ex_entry :: "string \<Rightarrow> string \<Rightarrow> int \<Rightarrow> int \<Rightarrow> entry" where
  "ex_entry ttl lnk h mi =
     \<lparr>published_parsed = Some \<lparr>tm_year = 2024, tm_mon = 5, tm_mday = 1, tm_hour = h,
                                tm_min = mi, tm_sec = 0\<rparr>,
      updated_parsed = None, entry_summary = None, entry_description = None,
      media_content = [], enclosures = [], entry_title = Some (Str ttl),
      entry_link = Some (Str lnk), fetch_time = ex_time\<rparr>"

text \<open>The article the fetcher makes of such an entry when the title needs no cleaning and
  matches the \<open>vehicles\<close> keywords only.\<close>

definition ex_article :: "feed_config \<Rightarrow> string \<Rightarrow> string \<Rightarrow> string \<Rightarrow> article" where
  "ex_article feed ttl lnk pub =
     \<lparr>art_id = generate_article_id lnk, title = ttl, summary = [], url = lnk,
      source = feed_name feed, language = feed_lang feed, region = feed_region feed,
      published = Some pub, image_url = None, categories = [''vehicles'']\<rparr>"

text \<open>A network of two sources: what \<open>ex_feed_a\<close> answers, and what any other source answers.\<close>

definition two_sources :: "http_outcome \<Rightarrow> http_outcome \<Rightarrow> feed_config \<Rightarrow> http_outcome" where
  "two_sources oa ob feed = (if feed_name feed = ''Blick Auto'' then oa else ob)"

text \<open>A request with the default parameters, a cache filled at time 0 with two articles, and
  a world in which every source fails.\<close>

definition ex_query :: news_query where
  "ex_query = \<lparr>q_region = None, q_category = None, q_language = None, q_limit = 50,
                q_refresh = False\<rparr>"

definition ex_cache :: news_cache where
  "ex_cache =
     \<lparr>articles = [ex_article ex_feed_b ''Modell B'' ''https://www.electrive.net/b''
                    ''2024-05-01T12:00:00+00:00'',
                  ex_article ex_feed_b ''Modell A'' ''https://www.electrive.net/a''
                    ''2024-05-01T10:00:00+00:00''],
      last_updated = Some 0\<rparr>"

definition ex_world :: "int \<Rightarrow> world" where
  "ex_world now = \<lparr>now_checked = now, network = (\<lambda>feed. Failed TransportError),
                   now_stored = now + 1\<rparr>"

section \<open>Properties of \<open>clean_html\<close>\<close>

subsection \<open>Tag stripping\<close>




subsection \<open>Whitespace\<close>
























section \<open>Properties of \<open>categorize_article\<close>\<close>

lemma matching_categories_iff:
  "cat \<in> set (matching_categories text) \<longleftrightarrow>
     (\<exists>kws. (cat, kws) \<in> set NEWS_CATEGORIES \<and> (\<exists>kw\<in>set kws. sublist kw text))"
  by (force simp: matching_categories_def)

lemma matching_categories_Nil:
  "matching_categories text = [] \<longleftrightarrow>
     (\<forall>(cat, kws)\<in>set NEWS_CATEGORIES. \<forall>kw\<in>set kws. \<not> sublist kw text)"
  by (auto simp: matching_categories_def filter_empty_conv)

lemma general_not_in_taxonomy: "(''general'', kws) \<notin> set NEWS_CATEGORIES"
  by (simp add: NEWS_CATEGORIES_def)

lemma categorize_article_cases:
  "categorize_article t s =
     (if matching_categories (lower (t @ '' '' @ s)) = [] then [''general'']
      else matching_categories (lower (t @ '' '' @ s)))"
  by (simp add: categorize_article_def Let_def)

text \<open>
  C7, as the code has it. The text searched is the lowercased title, one space, and the
  summary. A category of the taxonomy is in the result exactly when one of its keywords is
  a substring of that text; \<open>general\<close> is in the result exactly when no category matches,
  and is then the whole result. The result is never empty, and \<open>categorize_article('', '')\<close>
  is \<open>['general']\<close>.
\<close>

theorem categorize_article_contract:
  "(cat \<in> set (categorize_article t s) \<longleftrightarrow>
      (\<exists>kws. (cat, kws) \<in> set NEWS_CATEGORIES
         \<and> (\<exists>kw\<in>set kws. sublist kw (lower (t @ '' '' @ s))))
      \<or> (cat = ''general''
         \<and> (\<forall>(c, kws)\<in>set NEWS_CATEGORIES. \<forall>kw\<in>set kws.
               \<not> sublist kw (lower (t @ '' '' @ s)))))
   \<and> ((\<forall>(c, kws)\<in>set NEWS_CATEGORIES. \<forall>kw\<in>set kws. \<not> sublist kw (lower (t @ '' '' @ s)))
        \<longrightarrow> categorize_article t s = [''general''])
   \<and> categorize_article t s \<noteq> []
   \<and> categorize_article [] [] = [''general'']"
proof -
  let ?text = "lower (t @ '' '' @ s)"
  have iff: "cat \<in> set (categorize_article t s) \<longleftrightarrow>
      (\<exists>kws. (cat, kws) \<in> set NEWS_CATEGORIES \<and> (\<exists>kw\<in>set kws. sublist kw ?text))
      \<or> (cat = ''general''
         \<and> (\<forall>(c, kws)\<in>set NEWS_CATEGORIES. \<forall>kw\<in>set kws. \<not> sublist kw ?text))"
  proof (cases "matching_categories ?text = []")
    case True
    then have none: "\<forall>(c, kws)\<in>set NEWS_CATEGORIES. \<forall>kw\<in>set kws. \<not> sublist kw ?text"
      by (rule matching_categories_Nil [THEN iffD1])
    have "categorize_article t s = [''general'']"
      using True by (simp add: categorize_article_cases)
    moreover have "\<not> (\<exists>kws. (cat, kws) \<in> set NEWS_CATEGORIES \<and> (\<exists>kw\<in>set kws. sublist kw ?text))"
      using none by blast
    ultimately show ?thesis using none by auto
  next
    case False
    have some: "\<not> (\<forall>(c, kws)\<in>set NEWS_CATEGORIES. \<forall>kw\<in>set kws. \<not> sublist kw ?text)"
      using False by (simp add: matching_categories_Nil)
    have "categorize_article t s = matching_categories ?text"
      using False by (simp add: categorize_article_cases)
    then have "cat \<in> set (categorize_article t s) \<longleftrightarrow>
        (\<exists>kws. (cat, kws) \<in> set NEWS_CATEGORIES \<and> (\<exists>kw\<in>set kws. sublist kw ?text))"
      using matching_categories_iff [of cat ?text] by simp
    with some show ?thesis by blast
  qed
  have gen: "(\<forall>(c, kws)\<in>set NEWS_CATEGORIES. \<forall>kw\<in>set kws. \<not> sublist kw ?text)
        \<longrightarrow> categorize_article t s = [''general'']"
    by (simp add: categorize_article_cases matching_categories_Nil)
  have ne: "categorize_article t s \<noteq> []"
    by (simp add: categorize_article_cases)
  have empty: "categorize_article [] [] = [''general'']"
    by code_simp
  show ?thesis by (rule conjI [OF iff conjI [OF gen conjI [OF ne empty]]])
qed

theorem categorize_article_contract_witness:
  "categorize_article ''Tesla Model Y Battery update'' ''Laden''
     = [''vehicles'', ''battery'', ''charging'', ''technology'']
   \<and> (''battery'', [''batterie'', ''battery'', ''akku'', ''zelle'', ''cell'', ''reichweite'',
        ''range'', ''degradation'', ''lebensdauer'', ''baterija'']) \<in> set NEWS_CATEGORIES
   \<and> sublist ''battery'' (lower (''Tesla Model Y Battery update'' @ '' '' @ ''Laden''))
   \<and> ''battery'' \<in> set (categorize_article ''Tesla Model Y Battery update'' ''Laden'')
   \<and> categorize_article ''Wetter'' ''Sonne'' = [''general'']"
proof -
  have a: "categorize_article ''Tesla Model Y Battery update'' ''Laden''
     = [''vehicles'', ''battery'', ''charging'', ''technology'']" by code_simp
  have b: "(''battery'', [''batterie'', ''battery'', ''akku'', ''zelle'', ''cell'', ''reichweite'',
        ''range'', ''degradation'', ''lebensdauer'', ''baterija'']) \<in> set NEWS_CATEGORIES"
    by (simp add: NEWS_CATEGORIES_def)
  have c: "sublist ''battery'' (lower (''Tesla Model Y Battery update'' @ '' '' @ ''Laden''))"
    by code_simp
  have d: "\<forall>(c, kws)\<in>set NEWS_CATEGORIES. \<forall>kw\<in>set kws.
             \<not> sublist kw (lower (''Wetter'' @ '' '' @ ''Sonne''))"
    by code_simp
  have "\<exists>kw\<in>set [''batterie'', ''battery'', ''akku'', ''zelle'', ''cell'', ''reichweite'',
        ''range'', ''degradation'', ''lebensdauer'', ''baterija''].
          sublist kw (lower (''Tesla Model Y Battery update'' @ '' '' @ ''Laden''))"
    by (rule bexI [where x = "''battery''"], rule c) simp
  with b have m: "\<exists>kws. (''battery'', kws) \<in> set NEWS_CATEGORIES
      \<and> (\<exists>kw\<in>set kws. sublist kw (lower (''Tesla Model Y Battery update'' @ '' '' @ ''Laden'')))"
    by (intro exI conjI)
  have e: "''battery'' \<in> set (categorize_article ''Tesla Model Y Battery update'' ''Laden'')"
    by (rule categorize_article_contract [THEN conjunct1, THEN iffD2, OF disjI1, OF m])
  have f: "categorize_article ''Wetter'' ''Sonne'' = [''general'']"
    by (rule categorize_article_contract [THEN conjunct2, THEN conjunct1, THEN mp, OF d])
  show ?thesis by (rule conjI [OF a conjI [OF b conjI [OF c conjI [OF e f]]]])
qed

text \<open>
  Read without the separating space, C7 fails: \<open>ac\<close> is a keyword of \<open>charging\<close> and a
  substring of the lowercased concatenation of the title \<open>a\<close> and the summary \<open>c\<close>, but the
  code searches \<open>a c\<close> and answers \<open>['general']\<close>.
\<close>

theorem categorize_article_counterexample:
  "''ac'' \<in> set (the (map_of NEWS_CATEGORIES ''charging''))
   \<and> sublist ''ac'' (lower (''a'' @ ''c''))
   \<and> ''charging'' \<notin> set (categorize_article ''a'' ''c'')
   \<and> categorize_article ''a'' ''c'' = [''general'']"
  by code_simp

section \<open>Properties of \<open>generate_article_id\<close>\<close>

lemma length_le_bytes: "length (le_bytes k w) = k"
  by (simp add: le_bytes_def)

lemma length_md5: "length (md5 msg) = 16"
  by (simp add: md5_def length_le_bytes split: prod.splits)

lemma length_hexdigest: "length (hexdigest bs) = 2 * length bs"
  by (induction bs) (simp_all add: hexdigest_def)

lemma hexdigit_in: "hexdigit n \<in> set ''0123456789abcdef''"
proof -
  have "n mod 16 < length ''0123456789abcdef''" by simp
  then have "''0123456789abcdef'' ! (n mod 16) \<in> set ''0123456789abcdef''"
    by (rule nth_mem)
  then show ?thesis by (simp only: hexdigit_def)
qed

lemma set_hexdigest: "set (hexdigest bs) \<subseteq> set ''0123456789abcdef''"
proof -
  have "hexdigit (unat b div 16) \<in> set ''0123456789abcdef''
        \<and> hexdigit (unat b mod 16) \<in> set ''0123456789abcdef''" for b :: "8 word"
    using hexdigit_in by blast
  then show ?thesis unfolding hexdigest_def by (induction bs) auto
qed

text \<open>The model of MD5 on the test vector of RFC 1321.\<close>

lemma md5_abc: "hexdigest (md5 (encode ''abc'')) = ''900150983cd24fb0d6963f7d28e17f72''"
  by code_simp

text \<open>
  C8. \<open>generate_article_id\<close> is a function of the link alone: equal links give equal
  identifiers. The identifier is the first 12 characters of the hexadecimal MD5 digest of
  the UTF-8 encoded link, so it always has 12 characters, each a lowercase hex digit.
\<close>

theorem generate_article_id_contract:
  "(link = link' \<longrightarrow> generate_article_id link = generate_article_id link')
   \<and> generate_article_id link = take 12 (hexdigest (md5 (encode link)))
   \<and> length (hexdigest (md5 (encode link))) = 32
   \<and> length (generate_article_id link) = 12
   \<and> set (generate_article_id link) \<subseteq> set ''0123456789abcdef''"
proof -
  have len: "length (hexdigest (md5 (encode link))) = 32"
    by (simp add: length_hexdigest length_md5)
  then have "length (generate_article_id link) = 12"
    by (simp add: generate_article_id_def)
  moreover have "set (generate_article_id link) \<subseteq> set ''0123456789abcdef''"
    unfolding generate_article_id_def
    using set_hexdigest [of "md5 (encode link)"] set_take_subset [of 12 "hexdigest (md5 (encode link))"]
    by (rule_tac order_trans)
  ultimately show ?thesis using len by (simp add: generate_article_id_def)
qed

theorem generate_article_id_contract_witness:
  "''http://a/1'' = ''http://a/1''
   \<and> generate_article_id ''http://a/1'' = ''f9b968e7dbf1''
   \<and> length (generate_article_id ''http://a/1'') = 12"
proof -
  have "generate_article_id ''http://a/1'' = ''f9b968e7dbf1''" by code_simp
  then show ?thesis
    using generate_article_id_contract [of "''http://a/1''" "''http://a/1''"] by simp
qed

section \<open>Properties of the merge: sorting and deduplication\<close>

lemma set_sort_newest_first: "set (sort_newest_first arts) = set arts"
  by (simp add: sort_newest_first_def)

lemma length_sort_newest_first: "length (sort_newest_first arts) = length arts"
  by (simp add: sort_newest_first_def)

lemma distinct_sort_newest_first: "distinct (sort_newest_first arts) = distinct arts"
  by (simp add: sort_newest_first_def)

lemma sorted_sort_newest_first:
  "sorted_wrt (\<lambda>a b. published_key b \<le> published_key a) (sort_newest_first arts)"
proof -
  have "sorted (map published_key (sort_key published_key (rev arts)))"
    by (rule sorted_sort_key)
  then have "sorted_wrt (\<lambda>a b. published_key a \<le> published_key b)
               (sort_key published_key (rev arts))"
    by (simp only: sorted_map)
  then show ?thesis
    by (simp only: sort_newest_first_def sorted_wrt_rev)
qed

lemma set_unique_articles: "set (unique_articles seen arts) \<subseteq> set arts"
  by (induction arts arbitrary: seen) auto

lemma unique_articles_not_seen:
  "a \<in> set (unique_articles seen arts) \<Longrightarrow> title_key a \<notin> seen"
proof (induction arts arbitrary: seen)
  case Nil
  then show ?case by simp
next
  case (Cons x arts)
  show ?case
  proof (cases "title_key x \<in> seen")
    case True
    with Cons show ?thesis by simp
  next
    case False
    with Cons.prems have "a = x \<or> a \<in> set (unique_articles (insert (title_key x) seen) arts)"
      by simp
    then show ?thesis
    proof
      assume "a = x"
      with False show ?thesis by simp
    next
      assume "a \<in> set (unique_articles (insert (title_key x) seen) arts)"
      then have "title_key a \<notin> insert (title_key x) seen" by (rule Cons.IH)
      then show ?thesis by simp
    qed
  qed
qed

lemma distinct_unique_articles: "distinct (map title_key (unique_articles seen arts))"
proof (induction arts arbitrary: seen)
  case Nil
  then show ?case by simp
next
  case (Cons x arts)
  show ?case
  proof (cases "title_key x \<in> seen")
    case True
    with Cons show ?thesis by simp
  next
    case False
    have "title_key x \<notin> title_key ` set (unique_articles (insert (title_key x) seen) arts)"
    proof
      assume "title_key x \<in> title_key ` set (unique_articles (insert (title_key x) seen) arts)"
      then obtain r where r: "r \<in> set (unique_articles (insert (title_key x) seen) arts)"
        and k: "title_key x = title_key r" by blast
      from r have "title_key r \<notin> insert (title_key x) seen"
        by (rule unique_articles_not_seen)
      with k show False by simp
    qed
    with False Cons show ?thesis by simp
  qed
qed

lemma sorted_wrt_unique_articles:
  "sorted_wrt R arts \<Longrightarrow> sorted_wrt R (unique_articles seen arts)"
proof (induction arts arbitrary: seen)
  case Nil
  then show ?case by simp
next
  case (Cons x arts)
  from Cons.prems have tail: "sorted_wrt R arts" and hd: "\<forall>y\<in>set arts. R x y" by simp_all
  from hd have "\<forall>y\<in>set (unique_articles s arts). R x y" for s
    using set_unique_articles [of s arts] by blast
  with Cons.IH [OF tail] show ?case by simp
qed

lemma unique_articles_keeps_newest:
  assumes "sorted_wrt (\<lambda>a b. published_key b \<le> published_key a) arts"
    and "a \<in> set arts" and "title_key a \<notin> seen"
  shows "\<exists>r\<in>set (unique_articles seen arts).
           title_key r = title_key a \<and> published_key a \<le> published_key r"
  using assms
proof (induction arts arbitrary: seen)
  case Nil
  then show ?case by simp
next
  case (Cons x arts)
  from Cons.prems(1) have tail: "sorted_wrt (\<lambda>a b. published_key b \<le> published_key a) arts"
    and hd: "\<forall>y\<in>set arts. published_key y \<le> published_key x" by simp_all
  show ?case
  proof (cases "title_key x = title_key a")
    case True
    then have kept: "x \<in> set (unique_articles seen (x # arts))" using Cons.prems(3) by simp
    have "published_key a \<le> published_key x"
      using Cons.prems(2) hd by auto
    with True kept show ?thesis by blast
  next
    case False
    with Cons.prems(2) have mem: "a \<in> set arts" by auto
    show ?thesis
    proof (cases "title_key x \<in> seen")
      case True
      with Cons.IH [OF tail mem Cons.prems(3)] show ?thesis by simp
    next
      case notseen: False
      from False Cons.prems(3) have "title_key a \<notin> insert (title_key x) seen" by auto
      from Cons.IH [OF tail mem this] notseen show ?thesis by auto
    qed
  qed
qed

lemma unique_articles_distinct_id:
  "distinct (map title_key arts) \<Longrightarrow> \<forall>a\<in>set arts. title_key a \<notin> seen
     \<Longrightarrow> unique_articles seen arts = arts"
proof (induction arts arbitrary: seen)
  case Nil
  then show ?case by simp
next
  case (Cons x arts)
  from Cons.prems have d: "distinct (map title_key arts)"
    and fresh: "title_key x \<notin> title_key ` set arts"
    and x: "title_key x \<notin> seen" and rest: "\<forall>a\<in>set arts. title_key a \<notin> seen"
    by simp_all
  have "\<forall>a\<in>set arts. title_key a \<notin> insert (title_key x) seen"
  proof
    fix a
    assume a: "a \<in> set arts"
    then have "title_key a \<in> title_key ` set arts" by (rule imageI)
    with fresh have "title_key a \<noteq> title_key x" by auto
    with rest a show "title_key a \<notin> insert (title_key x) seen" by simp
  qed
  with d have "unique_articles (insert (title_key x) seen) arts = arts" by (rule Cons.IH)
  with x show ?case by simp
qed

lemma Nil_least: "([] :: string) \<le> s"
  by simp

lemma published_key_missing:
  "published a = None \<or> published a = Some [] \<Longrightarrow> published_key a = []"
  by (auto simp: published_key_def)

text \<open>
  C4. The aggregated result is in descending order of the sort key, the published string
  with \<open>None\<close> and \<open>''\<close> read as the empty string, which is below every string: each
  element's key is at least its successor's. The deduplication keeps the order of any
  list sorted that way.
\<close>

theorem aggregated_order:
  "sorted_wrt (\<lambda>a b. published_key b \<le> published_key a) (merge_articles results)
   \<and> (\<forall>i. Suc i < length (merge_articles results) \<longrightarrow>
          published_key (merge_articles results ! Suc i)
            \<le> published_key (merge_articles results ! i))
   \<and> sorted_wrt (\<lambda>a b. published_key b \<le> published_key a) (fetch_feeds unescape feeds net)
   \<and> (published a = None \<or> published a = Some [] \<longrightarrow>
          published_key a = [] \<and> (\<forall>b. published_key a \<le> published_key b))
   \<and> (sorted_wrt (\<lambda>a b. published_key b \<le> published_key a) arts \<longrightarrow>
          sorted_wrt (\<lambda>a b. published_key b \<le> published_key a) (unique_articles seen arts))"
proof -
  have s: "sorted_wrt (\<lambda>a b. published_key b \<le> published_key a) (merge_articles rs)" for rs
    unfolding merge_articles_def
    by (intro sorted_wrt_unique_articles sorted_sort_newest_first)
  have adj: "\<forall>i. Suc i < length (merge_articles results) \<longrightarrow>
          published_key (merge_articles results ! Suc i)
            \<le> published_key (merge_articles results ! i)"
  proof (intro allI impI)
    fix i
    assume "Suc i < length (merge_articles results)"
    with s [of results] show "published_key (merge_articles results ! Suc i)
            \<le> published_key (merge_articles results ! i)"
      using sorted_wrt_nth_less [of "\<lambda>a b. published_key b \<le> published_key a"
          "merge_articles results" i "Suc i"] by simp
  qed
  have f: "sorted_wrt (\<lambda>a b. published_key b \<le> published_key a) (fetch_feeds unescape feeds net)"
    unfolding fetch_feeds_def by (rule s)
  have m: "published a = None \<or> published a = Some [] \<longrightarrow>
          published_key a = [] \<and> (\<forall>b. published_key a \<le> published_key b)"
    using published_key_missing [of a] by (auto simp: Nil_least)
  have d: "sorted_wrt (\<lambda>a b. published_key b \<le> published_key a) arts \<longrightarrow>
          sorted_wrt (\<lambda>a b. published_key b \<le> published_key a) (unique_articles seen arts)"
    by (intro impI sorted_wrt_unique_articles)
  show ?thesis by (rule conjI [OF s conjI [OF adj conjI [OF f conjI [OF m d]]]])
qed

text \<open>
  C3. The title keys of the aggregated result are pairwise distinct. Every collected
  article is represented in the result by an article with the same title key and a
  published key at least its own, so of several articles sharing a title key the one kept
  is a most recent one. Two sources giving one article each, with the same title and
  different published keys, give a result of exactly the more recent article.
\<close>

theorem aggregated_dedup:
  "distinct (map title_key (merge_articles results))
   \<and> distinct (map title_key (fetch_feeds unescape feeds net))
   \<and> set (merge_articles results) \<subseteq> set (combine_results results)
   \<and> (a \<in> set (combine_results results) \<longrightarrow>
        (\<exists>r\<in>set (merge_articles results).
            title_key r = title_key a \<and> published_key a \<le> published_key r))
   \<and> (title x = title y \<and> published_key y < published_key x \<longrightarrow>
        merge_articles [Inr [x], Inr [y]] = [x] \<and> merge_articles [Inr [y], Inr [x]] = [x])"
proof -
  have d: "distinct (map title_key (merge_articles rs))" for rs
    unfolding merge_articles_def by (rule distinct_unique_articles)
  have df: "distinct (map title_key (fetch_feeds unescape feeds net))"
    unfolding fetch_feeds_def by (rule d)
  have sub: "set (merge_articles results) \<subseteq> set (combine_results results)"
    unfolding merge_articles_def
    using set_unique_articles [of "{}" "sort_newest_first (combine_results results)"]
    by (simp add: set_sort_newest_first)
  have newest: "a \<in> set (combine_results results) \<longrightarrow>
        (\<exists>r\<in>set (merge_articles results).
            title_key r = title_key a \<and> published_key a \<le> published_key r)"
  proof
    assume "a \<in> set (combine_results results)"
    then have "a \<in> set (sort_newest_first (combine_results results))"
      by (simp add: set_sort_newest_first)
    with sorted_sort_newest_first [of "combine_results results"]
    show "\<exists>r\<in>set (merge_articles results).
            title_key r = title_key a \<and> published_key a \<le> published_key r"
      unfolding merge_articles_def
      by (rule unique_articles_keeps_newest) simp
  qed
  have two: "title x = title y \<and> published_key y < published_key x \<longrightarrow>
        merge_articles [Inr [x], Inr [y]] = [x] \<and> merge_articles [Inr [y], Inr [x]] = [x]"
  proof
    assume h: "title x = title y \<and> published_key y < published_key x"
    then have k: "title_key y = title_key x" by (simp add: title_key_def)
    from h have lt: "published_key y < published_key x" by simp
    then have nle: "\<not> published_key x \<le> published_key y" by simp
    from lt have le: "published_key y \<le> published_key x" by simp
    have "sort_newest_first [x, y] = [x, y]" using le by (simp add: sort_newest_first_def)
    moreover have "sort_newest_first [y, x] = [x, y]" using nle by (simp add: sort_newest_first_def)
    ultimately show "merge_articles [Inr [x], Inr [y]] = [x] \<and> merge_articles [Inr [y], Inr [x]] = [x]"
      using k by (simp add: merge_articles_def combine_results_def)
  qed
  show ?thesis by (rule conjI [OF d conjI [OF df conjI [OF sub conjI [OF newest two]]]])
qed

section \<open>Properties of \<open>fetch_single_feed\<close>\<close>

lemma fetch_single_feed_returns: "\<exists>arts. fetch_single_feed unescape feed outcome = Inr arts"
  by (simp add: fetch_single_feed_def split: prod.splits)

lemma fetch_single_feed_fails:
  "source_fails outcome \<Longrightarrow> fetch_single_feed unescape feed outcome = Inr []"
  by (auto simp: source_fails_def fetch_single_feed_def try_fetch_def
      split: http_outcome.splits sum.splits)



lemma process_entry_isl:
  "isl (process_entry unescape feed e) \<longleftrightarrow>
     isl (entry_summary_text unescape e) \<or> isl (entry_image_url e)
     \<or> isl (clean_html unescape (case entry_title e of None \<Rightarrow> Str ''Kein Titel'' | Some v \<Rightarrow> v))
     \<or> (\<forall>s. (case entry_link e of None \<Rightarrow> Str [] | Some v \<Rightarrow> v) \<noteq> Str s)"
proof (cases "entry_summary_text unescape e")
  case (Inl a)
  then show ?thesis by (simp add: process_entry_def Let_def)
next
  case summ: (Inr summ)
  show ?thesis
  proof (cases "entry_image_url e")
    case (Inl a)
    with summ show ?thesis by (simp add: process_entry_def Let_def)
  next
    case img: (Inr img)
    show ?thesis
    proof (cases "clean_html unescape (case entry_title e of None \<Rightarrow> Str ''Kein Titel'' | Some v \<Rightarrow> v)")
      case (Inl a)
      with summ img show ?thesis by (simp add: process_entry_def Let_def)
    next
      case ttl: (Inr ttl)
      show ?thesis
        using summ img ttl
        by (cases "case entry_link e of None \<Rightarrow> Str [] | Some v \<Rightarrow> v")
          (simp_all add: process_entry_def Let_def)
    qed
  qed
qed

lemma entry_summary_text_dates:
  "entry_summary_text unescape (e\<lparr>published_parsed := p, updated_parsed := q\<rparr>)
     = entry_summary_text unescape e"
  by (simp add: entry_summary_text_def split: option.splits)

lemma entry_image_url_dates:
  "entry_image_url (e\<lparr>published_parsed := p, updated_parsed := q\<rparr>) = entry_image_url e"
  by (simp add: entry_image_url_def split: list.splits)

lemma process_entry_dates:
  "isl (process_entry unescape feed (e\<lparr>published_parsed := p, updated_parsed := q\<rparr>))
     = isl (process_entry unescape feed e)"
  by (simp add: process_entry_isl entry_summary_text_dates entry_image_url_dates)



text \<open>
  C2, as the code has it. \<open>fetch_single_feed\<close> always returns a list; it returns the empty
  list when the request raises, when the status is not 200 and when the parser raises.
  When source A fails and source B gives three articles, the aggregate over A and B is the
  merge of B's three articles alone; it is exactly those three, newest first, when their
  title keys are pairwise distinct.
\<close>

theorem fetch_failure_isolated:
  "(\<exists>arts. fetch_single_feed unescape feed outcome = Inr arts)
   \<and> fetch_single_feed unescape feed (Failed err) = Inr []
   \<and> (status \<noteq> 200 \<longrightarrow> fetch_single_feed unescape feed (Response status parsed) = Inr [])
   \<and> fetch_single_feed unescape feed (Response 200 (Inl err)) = Inr []
   \<and> (source_fails (net A) \<and> fetch_single_feed unescape B (net B) = Inr [b1, b2, b3] \<longrightarrow>
        fetch_feeds unescape [A, B] net = unique_articles {} (sort_newest_first [b1, b2, b3])
        \<and> (distinct (map title_key [b1, b2, b3]) \<longrightarrow>
             fetch_feeds unescape [A, B] net = sort_newest_first [b1, b2, b3]
             \<and> set (fetch_feeds unescape [A, B] net) = {b1, b2, b3}
             \<and> length (fetch_feeds unescape [A, B] net) = 3))"
proof -
  have c1: "\<exists>arts. fetch_single_feed unescape feed outcome = Inr arts"
    by (rule fetch_single_feed_returns)
  have c2: "fetch_single_feed unescape feed (Failed err) = Inr []"
    by (rule fetch_single_feed_fails) (simp add: source_fails_def)
  have c3: "status \<noteq> 200 \<longrightarrow> fetch_single_feed unescape feed (Response status parsed) = Inr []"
    by (intro impI fetch_single_feed_fails) (simp add: source_fails_def)
  have c4: "fetch_single_feed unescape feed (Response 200 (Inl err)) = Inr []"
    by (rule fetch_single_feed_fails) (simp add: source_fails_def)
  have c5: "source_fails (net A) \<and> fetch_single_feed unescape B (net B) = Inr [b1, b2, b3] \<longrightarrow>
        fetch_feeds unescape [A, B] net = unique_articles {} (sort_newest_first [b1, b2, b3])
        \<and> (distinct (map title_key [b1, b2, b3]) \<longrightarrow>
             fetch_feeds unescape [A, B] net = sort_newest_first [b1, b2, b3]
             \<and> set (fetch_feeds unescape [A, B] net) = {b1, b2, b3}
             \<and> length (fetch_feeds unescape [A, B] net) = 3)"
  proof (intro impI)
    assume h: "source_fails (net A) \<and> fetch_single_feed unescape B (net B) = Inr [b1, b2, b3]"
    then have a: "fetch_single_feed unescape A (net A) = Inr []"
      by (intro fetch_single_feed_fails) simp
    from h have b: "fetch_single_feed unescape B (net B) = Inr [b1, b2, b3]" by simp
    have m: "fetch_feeds unescape [A, B] net = unique_articles {} (sort_newest_first [b1, b2, b3])"
      by (simp add: fetch_feeds_def merge_articles_def combine_results_def a b)
    have d: "fetch_feeds unescape [A, B] net = sort_newest_first [b1, b2, b3]
             \<and> set (fetch_feeds unescape [A, B] net) = {b1, b2, b3}
             \<and> length (fetch_feeds unescape [A, B] net) = 3"
      if dist: "distinct (map title_key [b1, b2, b3])"
    proof -
      have "distinct (map title_key (sort_newest_first [b1, b2, b3]))"
        using dist
        by (simp only: distinct_map set_sort_newest_first distinct_sort_newest_first)
      then have "unique_articles {} (sort_newest_first [b1, b2, b3]) = sort_newest_first [b1, b2, b3]"
        by (rule unique_articles_distinct_id) simp
      with m have e: "fetch_feeds unescape [A, B] net = sort_newest_first [b1, b2, b3]" by simp
      have "set (sort_newest_first [b1, b2, b3]) = {b1, b2, b3}"
        by (simp only: set_sort_newest_first) simp
      moreover have "length (sort_newest_first [b1, b2, b3]) = 3"
        by (simp only: length_sort_newest_first) simp
      ultimately show ?thesis using e by simp
    qed
    from m d show "fetch_feeds unescape [A, B] net = unique_articles {} (sort_newest_first [b1, b2, b3])
        \<and> (distinct (map title_key [b1, b2, b3]) \<longrightarrow>
             fetch_feeds unescape [A, B] net = sort_newest_first [b1, b2, b3]
             \<and> set (fetch_feeds unescape [A, B] net) = {b1, b2, b3}
             \<and> length (fetch_feeds unescape [A, B] net) = 3)" by blast
  qed
  show ?thesis by (rule conjI [OF c1 conjI [OF c2 conjI [OF c3 conjI [OF c4 c5]]]])
qed







section \<open>Evaluation of the example inputs\<close>

lemma pad2_values:
  "pad2 0 = ''00''" "pad2 10 = ''10''" "pad2 11 = ''11''" "pad2 12 = ''12''" "pad2 50 = ''50''"
  by (simp_all add: pad2_def digit_def)


lemma mk_datetime_ex:
  "mk_datetime \<lparr>tm_year = 2024, tm_mon = 5, tm_mday = 1, tm_hour = h, tm_min = mi, tm_sec = 0\<rparr>
     = (if 0 \<le> h \<and> h \<le> 23 \<and> 0 \<le> mi \<and> mi \<le> 59
        then Inr \<lparr>year = 2024, month = 5, day = 1, hour = h, minute = mi, second = 0,
                  microsecond = 0\<rparr>
        else Inl ValueError)"
  by (simp add: mk_datetime_def days_in_month_def)

lemma isoformat_ex_entry:
  "0 \<le> h \<Longrightarrow> h \<le> 23 \<Longrightarrow> 0 \<le> mi \<Longrightarrow> mi \<le> 59 \<Longrightarrow>
   isoformat (entry_pub_date (ex_entry ttl lnk h mi))
     = ''2024-05-01T'' @ pad2 h @ '':'' @ pad2 mi @ '':00+00:00''"
  by (simp add: isoformat_def entry_pub_date_def ex_entry_def mk_datetime_ex pad2_def pad4_def
      digit_def)

lemma process_ex_entry:
  assumes "clean_html unescape (Str ttl) = Inr ttl"
    and "categorize_article ttl [] = [''vehicles'']"
    and "0 \<le> h" "h \<le> 23" "0 \<le> mi" "mi \<le> 59"
  shows "process_entry unescape feed (ex_entry ttl lnk h mi)
     = Inr (ex_article feed ttl lnk (''2024-05-01T'' @ pad2 h @ '':'' @ pad2 mi @ '':00+00:00''))"
proof -
  have "process_entry unescape feed (ex_entry ttl lnk h mi) =
    Inr \<lparr>art_id = generate_article_id lnk, title = ttl, summary = [], url = lnk,
         source = feed_name feed, language = feed_lang feed, region = feed_region feed,
         published = Some (isoformat (entry_pub_date (ex_entry ttl lnk h mi))), image_url = None,
         categories = categorize_article ttl []\<rparr>"
    using assms(1)
    by (simp add: process_entry_def entry_summary_text_def entry_image_url_def ex_entry_def Let_def)
  then show ?thesis
    using assms(2-) by (simp add: isoformat_ex_entry ex_article_def)
qed

lemma clean_neues_modell: "clean_html (\<lambda>s. s) (Str ''Neues Modell'') = Inr ''Neues Modell''"
  by code_simp

lemma clean_modell_abc:
  "clean_html (\<lambda>s. s) (Str ''Modell A'') = Inr ''Modell A''"
  "clean_html (\<lambda>s. s) (Str ''Modell B'') = Inr ''Modell B''"
  "clean_html (\<lambda>s. s) (Str ''Modell C'') = Inr ''Modell C''"
  by code_simp+

lemma categorize_examples:
  "categorize_article ''Neues Modell'' [] = [''vehicles'']"
  "categorize_article ''Modell A'' [] = [''vehicles'']"
  "categorize_article ''Modell B'' [] = [''vehicles'']"
  "categorize_article ''Modell C'' [] = [''vehicles'']"
  by code_simp+

lemma lower_examples:
  "lower ''Neues Modell'' = ''neues modell''"
  "lower ''Modell A'' = ''modell a''"
  "lower ''Modell B'' = ''modell b''"
  "lower ''Modell C'' = ''modell c''"
  by code_simp+

lemma title_key_examples:
  "title_key (ex_article feed ''Neues Modell'' lnk pub) = ''neues modell''"
  "title_key (ex_article feed ''Modell A'' lnk pub) = ''modell a''"
  "title_key (ex_article feed ''Modell B'' lnk pub) = ''modell b''"
  "title_key (ex_article feed ''Modell C'' lnk pub) = ''modell c''"
  by (simp_all add: title_key_def ex_article_def lower_examples)

lemma two_sources_ex:
  "two_sources oa ob ex_feed_a = oa" "two_sources oa ob ex_feed_b = ob"
  by (simp_all add: two_sources_def ex_feed_a_def ex_feed_b_def)




lemma fetch_one_entry:
  "process_entry unescape feed e1 = Inr a1 \<Longrightarrow>
   fetch_single_feed unescape feed (Response 200 (Inr [e1])) = Inr [a1]"
  by (simp add: fetch_single_feed_def try_fetch_def)

lemma fetch_two_entries:
  "process_entry unescape feed e1 = Inr a1 \<Longrightarrow> process_entry unescape feed e2 = Inr a2 \<Longrightarrow>
   fetch_single_feed unescape feed (Response 200 (Inr [e1, e2])) = Inr [a1, a2]"
  by (simp add: fetch_single_feed_def try_fetch_def)

lemma fetch_three_entries:
  "process_entry unescape feed e1 = Inr a1 \<Longrightarrow> process_entry unescape feed e2 = Inr a2 \<Longrightarrow>
   process_entry unescape feed e3 = Inr a3 \<Longrightarrow>
   fetch_single_feed unescape feed (Response 200 (Inr [e1, e2, e3])) = Inr [a1, a2, a3]"
  by (simp add: fetch_single_feed_def try_fetch_def)

lemma published_key_ex: "published_key (ex_article feed ttl lnk pub) = pub"
  by (simp add: published_key_def ex_article_def)

section \<open>The merge on example inputs\<close>

theorem aggregated_dedup_witness:
  "fetch_single_feed (\<lambda>s. s) ex_feed_a
       (Response 200 (Inr [ex_entry ''Neues Modell'' ''https://www.blick.ch/auto/1'' 12 0]))
     = Inr [ex_article ex_feed_a ''Neues Modell'' ''https://www.blick.ch/auto/1''
              ''2024-05-01T12:00:00+00:00'']
   \<and> fetch_single_feed (\<lambda>s. s) ex_feed_b
       (Response 200 (Inr [ex_entry ''Neues Modell'' ''https://www.electrive.net/2'' 11 50]))
     = Inr [ex_article ex_feed_b ''Neues Modell'' ''https://www.electrive.net/2''
              ''2024-05-01T11:50:00+00:00'']
   \<and> title (ex_article ex_feed_a ''Neues Modell'' ''https://www.blick.ch/auto/1''
              ''2024-05-01T12:00:00+00:00'')
       = title (ex_article ex_feed_b ''Neues Modell'' ''https://www.electrive.net/2''
              ''2024-05-01T11:50:00+00:00'')
   \<and> published_key (ex_article ex_feed_b ''Neues Modell'' ''https://www.electrive.net/2''
              ''2024-05-01T11:50:00+00:00'')
       < published_key (ex_article ex_feed_a ''Neues Modell'' ''https://www.blick.ch/auto/1''
              ''2024-05-01T12:00:00+00:00'')
   \<and> fetch_feeds (\<lambda>s. s) [ex_feed_a, ex_feed_b]
        (two_sources
          (Response 200 (Inr [ex_entry ''Neues Modell'' ''https://www.blick.ch/auto/1'' 12 0]))
          (Response 200 (Inr [ex_entry ''Neues Modell'' ''https://www.electrive.net/2'' 11 50])))
     = [ex_article ex_feed_a ''Neues Modell'' ''https://www.blick.ch/auto/1''
          ''2024-05-01T12:00:00+00:00'']"
proof -
  let ?ea = "ex_entry ''Neues Modell'' ''https://www.blick.ch/auto/1'' 12 0"
  let ?eb = "ex_entry ''Neues Modell'' ''https://www.electrive.net/2'' 11 50"
  let ?xa = "ex_article ex_feed_a ''Neues Modell'' ''https://www.blick.ch/auto/1''
               ''2024-05-01T12:00:00+00:00''"
  let ?xb = "ex_article ex_feed_b ''Neues Modell'' ''https://www.electrive.net/2''
               ''2024-05-01T11:50:00+00:00''"
  have pa: "process_entry (\<lambda>s. s) ex_feed_a ?ea = Inr ?xa"
    using process_ex_entry [OF clean_neues_modell categorize_examples(1), of 12 0 ex_feed_a
        "''https://www.blick.ch/auto/1''"]
    by (simp add: pad2_values)
  have pb: "process_entry (\<lambda>s. s) ex_feed_b ?eb = Inr ?xb"
    using process_ex_entry [OF clean_neues_modell categorize_examples(1), of 11 50 ex_feed_b
        "''https://www.electrive.net/2''"]
    by (simp add: pad2_values)
  have fa: "fetch_single_feed (\<lambda>s. s) ex_feed_a (Response 200 (Inr [?ea])) = Inr [?xa]"
    using pa by (rule fetch_one_entry)
  have fb: "fetch_single_feed (\<lambda>s. s) ex_feed_b (Response 200 (Inr [?eb])) = Inr [?xb]"
    using pb by (rule fetch_one_entry)
  have t: "title ?xa = title ?xb" by (simp add: ex_article_def)
  have lt: "published_key ?xb < published_key ?xa" by (simp add: published_key_ex)
  have "merge_articles [Inr [?xa], Inr [?xb]] = [?xa]"
    using aggregated_dedup [of "[]" "\<lambda>s. s" "[]" "\<lambda>f. Failed TransportError" ?xa ?xa ?xb] t lt
    by blast
  then have m: "fetch_feeds (\<lambda>s. s) [ex_feed_a, ex_feed_b]
        (two_sources (Response 200 (Inr [?ea])) (Response 200 (Inr [?eb]))) = [?xa]"
    by (simp add: fetch_feeds_def two_sources_ex fa fb)
  show ?thesis by (rule conjI [OF fa conjI [OF fb conjI [OF t conjI [OF lt m]]]])
qed

theorem aggregated_order_witness:
  "merge_articles
       [Inr [ex_article ex_feed_b ''Modell A'' ''https://www.electrive.net/a''
               ''2024-05-01T10:00:00+00:00''],
        Inr [(ex_article ex_feed_b ''Modell C'' ''https://www.electrive.net/c'' [])
                \<lparr>published := None\<rparr>,
             ex_article ex_feed_b ''Modell B'' ''https://www.electrive.net/b''
               ''2024-05-01T12:00:00+00:00'']]
     = [ex_article ex_feed_b ''Modell B'' ''https://www.electrive.net/b''
          ''2024-05-01T12:00:00+00:00'',
        ex_article ex_feed_b ''Modell A'' ''https://www.electrive.net/a''
          ''2024-05-01T10:00:00+00:00'',
        (ex_article ex_feed_b ''Modell C'' ''https://www.electrive.net/c'' [])
          \<lparr>published := None\<rparr>]
   \<and> published_key (ex_article ex_feed_b ''Modell A'' ''https://www.electrive.net/a''
          ''2024-05-01T10:00:00+00:00'')
       \<le> published_key (ex_article ex_feed_b ''Modell B'' ''https://www.electrive.net/b''
          ''2024-05-01T12:00:00+00:00'')
   \<and> published ((ex_article ex_feed_b ''Modell C'' ''https://www.electrive.net/c'' [])
          \<lparr>published := None\<rparr>) = None
   \<and> published_key ((ex_article ex_feed_b ''Modell C'' ''https://www.electrive.net/c'' [])
          \<lparr>published := None\<rparr>)
       \<le> published_key (ex_article ex_feed_b ''Modell A'' ''https://www.electrive.net/a''
          ''2024-05-01T10:00:00+00:00'')"
proof -
  let ?old = "ex_article ex_feed_b ''Modell A'' ''https://www.electrive.net/a''
                ''2024-05-01T10:00:00+00:00''"
  let ?new = "ex_article ex_feed_b ''Modell B'' ''https://www.electrive.net/b''
                ''2024-05-01T12:00:00+00:00''"
  let ?undated = "(ex_article ex_feed_b ''Modell C'' ''https://www.electrive.net/c'' [])
                    \<lparr>published := None\<rparr>"
  let ?results = "[Inr [?old], Inr [?undated, ?new]] :: (py_error + article list) list"
  have ku: "published_key ?undated = []" by (simp add: published_key_def)
  have s: "sort_newest_first [?old, ?undated, ?new] = [?new, ?old, ?undated]"
    by (simp add: sort_newest_first_def published_key_ex ku)
  have tk: "title_key ?undated = ''modell c''"
    using title_key_examples(4) [of ex_feed_b "''https://www.electrive.net/c''" "[]"]
    by (simp add: title_key_def)
  have m: "merge_articles ?results = [?new, ?old, ?undated]"
    by (simp add: merge_articles_def combine_results_def s title_key_examples tk)
  note inst = aggregated_order [of ?results "\<lambda>s. s" "[]" "\<lambda>f. Failed TransportError" ?undated
      "[]" "{}"]
  from inst have "sorted_wrt (\<lambda>a b. published_key b \<le> published_key a) (merge_articles ?results)"
    by (rule conjunct1)
  then have le: "published_key ?old \<le> published_key ?new" by (simp add: m)
  have none: "published ?undated = None" by simp
  from inst none have "\<forall>b. published_key ?undated \<le> published_key b" by blast
  then have least: "published_key ?undated \<le> published_key ?old" by (rule spec)
  show ?thesis by (rule conjI [OF m conjI [OF le conjI [OF none least]]])
qed

section \<open>The fetcher on example inputs\<close>

theorem fetch_failure_isolated_witness:
  "source_fails (two_sources (Failed TransportError)
        (Response 200 (Inr [ex_entry ''Modell A'' ''https://www.electrive.net/a'' 10 0,
                            ex_entry ''Modell B'' ''https://www.electrive.net/b'' 12 0,
                            ex_entry ''Modell C'' ''https://www.electrive.net/c'' 11 0]))
        ex_feed_a)
   \<and> fetch_single_feed (\<lambda>s. s) ex_feed_b
        (Response 200 (Inr [ex_entry ''Modell A'' ''https://www.electrive.net/a'' 10 0,
                            ex_entry ''Modell B'' ''https://www.electrive.net/b'' 12 0,
                            ex_entry ''Modell C'' ''https://www.electrive.net/c'' 11 0]))
     = Inr [ex_article ex_feed_b ''Modell A'' ''https://www.electrive.net/a''
              ''2024-05-01T10:00:00+00:00'',
            ex_article ex_feed_b ''Modell B'' ''https://www.electrive.net/b''
              ''2024-05-01T12:00:00+00:00'',
            ex_article ex_feed_b ''Modell C'' ''https://www.electrive.net/c''
              ''2024-05-01T11:00:00+00:00'']
   \<and> distinct (map title_key
        [ex_article ex_feed_b ''Modell A'' ''https://www.electrive.net/a''
           ''2024-05-01T10:00:00+00:00'',
         ex_article ex_feed_b ''Modell B'' ''https://www.electrive.net/b''
           ''2024-05-01T12:00:00+00:00'',
         ex_article ex_feed_b ''Modell C'' ''https://www.electrive.net/c''
           ''2024-05-01T11:00:00+00:00''])
   \<and> fetch_feeds (\<lambda>s. s) [ex_feed_a, ex_feed_b]
        (two_sources (Failed TransportError)
          (Response 200 (Inr [ex_entry ''Modell A'' ''https://www.electrive.net/a'' 10 0,
                              ex_entry ''Modell B'' ''https://www.electrive.net/b'' 12 0,
                              ex_entry ''Modell C'' ''https://www.electrive.net/c'' 11 0])))
     = [ex_article ex_feed_b ''Modell B'' ''https://www.electrive.net/b''
          ''2024-05-01T12:00:00+00:00'',
        ex_article ex_feed_b ''Modell C'' ''https://www.electrive.net/c''
          ''2024-05-01T11:00:00+00:00'',
        ex_article ex_feed_b ''Modell A'' ''https://www.electrive.net/a''
          ''2024-05-01T10:00:00+00:00'']"
proof -
  let ?e1 = "ex_entry ''Modell A'' ''https://www.electrive.net/a'' 10 0"
  let ?e2 = "ex_entry ''Modell B'' ''https://www.electrive.net/b'' 12 0"
  let ?e3 = "ex_entry ''Modell C'' ''https://www.electrive.net/c'' 11 0"
  let ?a1 = "ex_article ex_feed_b ''Modell A'' ''https://www.electrive.net/a''
               ''2024-05-01T10:00:00+00:00''"
  let ?a2 = "ex_article ex_feed_b ''Modell B'' ''https://www.electrive.net/b''
               ''2024-05-01T12:00:00+00:00''"
  let ?a3 = "ex_article ex_feed_b ''Modell C'' ''https://www.electrive.net/c''
               ''2024-05-01T11:00:00+00:00''"
  let ?net = "two_sources (Failed TransportError) (Response 200 (Inr [?e1, ?e2, ?e3]))"
  have p1: "process_entry (\<lambda>s. s) ex_feed_b ?e1 = Inr ?a1"
    using process_ex_entry [OF clean_modell_abc(1) categorize_examples(2), of 10 0 ex_feed_b
        "''https://www.electrive.net/a''"]
    by (simp add: pad2_values)
  have p2: "process_entry (\<lambda>s. s) ex_feed_b ?e2 = Inr ?a2"
    using process_ex_entry [OF clean_modell_abc(2) categorize_examples(3), of 12 0 ex_feed_b
        "''https://www.electrive.net/b''"]
    by (simp add: pad2_values)
  have p3: "process_entry (\<lambda>s. s) ex_feed_b ?e3 = Inr ?a3"
    using process_ex_entry [OF clean_modell_abc(3) categorize_examples(4), of 11 0 ex_feed_b
        "''https://www.electrive.net/c''"]
    by (simp add: pad2_values)
  have fb: "fetch_single_feed (\<lambda>s. s) ex_feed_b (Response 200 (Inr [?e1, ?e2, ?e3]))
              = Inr [?a1, ?a2, ?a3]"
    using p1 p2 p3 by (rule fetch_three_entries)
  have fails: "source_fails (?net ex_feed_a)"
    by (simp add: two_sources_ex source_fails_def)
  have d: "distinct (map title_key [?a1, ?a2, ?a3])"
    by (simp add: title_key_examples)
  have s: "sort_newest_first [?a1, ?a2, ?a3] = [?a2, ?a3, ?a1]"
    by (simp add: sort_newest_first_def published_key_ex)
  have fb': "fetch_single_feed (\<lambda>s. s) ex_feed_b (?net ex_feed_b) = Inr [?a1, ?a2, ?a3]"
    using fb by (simp add: two_sources_ex)
  have "fetch_feeds (\<lambda>s. s) [ex_feed_a, ex_feed_b] ?net = sort_newest_first [?a1, ?a2, ?a3]"
    using fetch_failure_isolated [of "\<lambda>s. s" ex_feed_a "Failed TransportError" TransportError 0
        "Inl ParseError" ?net ex_feed_a ex_feed_b ?a1 ?a2 ?a3] fails fb' d
    by blast
  then have m: "fetch_feeds (\<lambda>s. s) [ex_feed_a, ex_feed_b] ?net = [?a2, ?a3, ?a1]"
    by (simp only: s)
  show ?thesis by (rule conjI [OF fails conjI [OF fb conjI [OF d m]]])
qed

text \<open>
  As stated, C2 fails when the articles of the healthy source share a title key: source A
  raises, source B gives three articles titled \<open>Neues Modell\<close>, and the aggregate holds
  one article, the most recent, not B's three.
\<close>

theorem fetch_failure_isolated_counterexample:
  "source_fails (Failed TransportError)
   \<and> fetch_single_feed (\<lambda>s. s) ex_feed_b
        (Response 200 (Inr [ex_entry ''Neues Modell'' ''https://www.electrive.net/a'' 10 0,
                            ex_entry ''Neues Modell'' ''https://www.electrive.net/b'' 12 0,
                            ex_entry ''Neues Modell'' ''https://www.electrive.net/c'' 11 0]))
     = Inr [ex_article ex_feed_b ''Neues Modell'' ''https://www.electrive.net/a''
              ''2024-05-01T10:00:00+00:00'',
            ex_article ex_feed_b ''Neues Modell'' ''https://www.electrive.net/b''
              ''2024-05-01T12:00:00+00:00'',
            ex_article ex_feed_b ''Neues Modell'' ''https://www.electrive.net/c''
              ''2024-05-01T11:00:00+00:00'']
   \<and> fetch_feeds (\<lambda>s. s) [ex_feed_a, ex_feed_b]
        (two_sources (Failed TransportError)
          (Response 200 (Inr [ex_entry ''Neues Modell'' ''https://www.electrive.net/a'' 10 0,
                              ex_entry ''Neues Modell'' ''https://www.electrive.net/b'' 12 0,
                              ex_entry ''Neues Modell'' ''https://www.electrive.net/c'' 11 0])))
     = [ex_article ex_feed_b ''Neues Modell'' ''https://www.electrive.net/b''
          ''2024-05-01T12:00:00+00:00'']"
proof -
  let ?e1 = "ex_entry ''Neues Modell'' ''https://www.electrive.net/a'' 10 0"
  let ?e2 = "ex_entry ''Neues Modell'' ''https://www.electrive.net/b'' 12 0"
  let ?e3 = "ex_entry ''Neues Modell'' ''https://www.electrive.net/c'' 11 0"
  let ?a1 = "ex_article ex_feed_b ''Neues Modell'' ''https://www.electrive.net/a''
               ''2024-05-01T10:00:00+00:00''"
  let ?a2 = "ex_article ex_feed_b ''Neues Modell'' ''https://www.electrive.net/b''
               ''2024-05-01T12:00:00+00:00''"
  let ?a3 = "ex_article ex_feed_b ''Neues Modell'' ''https://www.electrive.net/c''
               ''2024-05-01T11:00:00+00:00''"
  let ?net = "two_sources (Failed TransportError) (Response 200 (Inr [?e1, ?e2, ?e3]))"
  have p1: "process_entry (\<lambda>s. s) ex_feed_b ?e1 = Inr ?a1"
    using process_ex_entry [OF clean_neues_modell categorize_examples(1), of 10 0 ex_feed_b
        "''https://www.electrive.net/a''"]
    by (simp add: pad2_values)
  have p2: "process_entry (\<lambda>s. s) ex_feed_b ?e2 = Inr ?a2"
    using process_ex_entry [OF clean_neues_modell categorize_examples(1), of 12 0 ex_feed_b
        "''https://www.electrive.net/b''"]
    by (simp add: pad2_values)
  have p3: "process_entry (\<lambda>s. s) ex_feed_b ?e3 = Inr ?a3"
    using process_ex_entry [OF clean_neues_modell categorize_examples(1), of 11 0 ex_feed_b
        "''https://www.electrive.net/c''"]
    by (simp add: pad2_values)
  have fb: "fetch_single_feed (\<lambda>s. s) ex_feed_b (Response 200 (Inr [?e1, ?e2, ?e3]))
              = Inr [?a1, ?a2, ?a3]"
    using p1 p2 p3 by (rule fetch_three_entries)
  have fails: "source_fails (Failed TransportError)"
    by (simp add: source_fails_def)
  then have fa: "fetch_single_feed (\<lambda>s. s) ex_feed_a (Failed TransportError) = Inr []"
    by (rule fetch_single_feed_fails)
  have s: "sort_newest_first [?a1, ?a2, ?a3] = [?a2, ?a3, ?a1]"
    by (simp add: sort_newest_first_def published_key_ex)
  have m: "fetch_feeds (\<lambda>s. s) [ex_feed_a, ex_feed_b] ?net = [?a2]"
    by (simp add: fetch_feeds_def two_sources_ex fa fb merge_articles_def combine_results_def s
        title_key_examples)
  show ?thesis by (rule conjI [OF fails conjI [OF fb m]])
qed


section \<open>Properties of the cache and of \<open>GET /news\<close>\<close>

lemma set_merge_articles: "set (merge_articles results) \<subseteq> set (combine_results results)"
  unfolding merge_articles_def
  using set_unique_articles [of "{}" "sort_newest_first (combine_results results)"]
  by (simp add: set_sort_newest_first)

lemma fetch_feeds_all_fail:
  assumes "\<forall>feed\<in>set feeds. source_fails (net feed)"
  shows "fetch_feeds unescape feeds net = []"
proof -
  have "map (\<lambda>feed. fetch_single_feed unescape feed (net feed)) feeds = map (\<lambda>feed. Inr []) feeds"
    using assms by (intro map_cong refl fetch_single_feed_fails) simp
  then have "combine_results (map (\<lambda>feed. fetch_single_feed unescape feed (net feed)) feeds) = []"
    by (simp add: combine_results_def)
  then show ?thesis
    by (simp add: fetch_feeds_def merge_articles_def sort_newest_first_def)
qed

subsection \<open>Articles of the registry's sources\<close>

lemma categorize_article_known: "set (categorize_article t s) \<subseteq> set known_categories"
proof -
  have "set (matching_categories x) \<subseteq> set (map fst NEWS_CATEGORIES)" for x
    by (auto simp: matching_categories_def)
  then show ?thesis
    by (auto simp: categorize_article_cases known_categories_def)
qed

lemma process_entry_fields:
  assumes "process_entry unescape feed e = Inr a"
  shows "language a = feed_lang feed \<and> region a = feed_region feed
         \<and> set (categories a) \<subseteq> set known_categories"
  using assms
  by (auto simp: process_entry_def Let_def
      split: sum.splits pyval.splits option.splits
      intro: categorize_article_known [THEN subsetD])

lemma process_entry_wf:
  assumes "process_entry unescape feed e = Inr a" and "feed \<in> set all_feeds"
  shows "article_wf a"
proof -
  from process_entry_fields [OF assms(1)]
  have l: "language a = feed_lang feed" and c: "set (categories a) \<subseteq> set known_categories"
    by blast+
  from l assms(2) have "language a \<in> set known_languages"
    by (simp add: known_languages_def)
  with c show ?thesis by (simp add: article_wf_def)
qed

lemma process_entries_wf:
  assumes "feed \<in> set all_feeds"
  shows "\<forall>a\<in>set (fst (process_entries unescape feed es)). article_wf a"
proof (induction es)
  case Nil
  then show ?case by simp
next
  case (Cons e es)
  show ?case
  proof (cases "process_entry unescape feed e")
    case (Inl err)
    then show ?thesis by simp
  next
    case (Inr a)
    then have "article_wf a" using assms by (rule process_entry_wf)
    with Cons Inr show ?thesis by (simp split: prod.splits)
  qed
qed

lemma fetch_single_feed_wf:
  assumes "feed \<in> set all_feeds" and "fetch_single_feed unescape feed outcome = Inr arts"
  shows "\<forall>a\<in>set arts. article_wf a"
proof -
  have "arts = fst (try_fetch unescape feed outcome)"
    using assms(2) by (simp add: fetch_single_feed_def split: prod.splits)
  moreover have "\<forall>a\<in>set (fst (try_fetch unescape feed outcome)). article_wf a"
    using process_entries_wf [OF assms(1)]
    by (simp add: try_fetch_def split: http_outcome.splits sum.splits)
  ultimately show ?thesis by simp
qed

lemma fetch_all_feeds_wf: "\<forall>a\<in>set (fetch_all_feeds unescape net). article_wf a"
proof
  fix a
  assume "a \<in> set (fetch_all_feeds unescape net)"
  then have "a \<in> set (combine_results
      (map (\<lambda>feed. fetch_single_feed unescape feed (net feed)) all_feeds))"
    using set_merge_articles by (auto simp: fetch_all_feeds_def fetch_feeds_def)
  then obtain feed where f: "feed \<in> set all_feeds"
    and m: "a \<in> set (case fetch_single_feed unescape feed (net feed) of
                         Inr arts \<Rightarrow> arts | Inl _ \<Rightarrow> [])"
    by (auto simp: combine_results_def)
  obtain arts where r: "fetch_single_feed unescape feed (net feed) = Inr arts"
    using fetch_single_feed_returns by blast
  with m have a: "a \<in> set arts" by simp
  from fetch_single_feed_wf [OF f r] a show "article_wf a" by blast
qed

subsection \<open>The request\<close>

lemma refresh_if_stale_valid:
  "cache_valid cache (now_checked w) refresh \<Longrightarrow>
   refresh_if_stale unescape cache w refresh = (cache, 0)"
  by (simp add: refresh_if_stale_def)

lemma refresh_if_stale_invalid:
  "\<not> cache_valid cache (now_checked w) refresh \<Longrightarrow>
   refresh_if_stale unescape cache w refresh =
     (\<lparr>articles = fetch_all_feeds unescape (network w), last_updated = Some (now_stored w)\<rparr>, 1)"
  by (simp add: refresh_if_stale_def)

lemma refresh_if_stale_wf:
  "cache_wf cache \<Longrightarrow> cache_wf (fst (refresh_if_stale unescape cache w refresh))"
  using fetch_all_feeds_wf [of unescape "network w"]
  by (simp add: refresh_if_stale_def cache_wf_def)

lemma get_news_parts:
  "fst (get_news unescape cache w q) = fst (refresh_if_stale unescape cache w (q_refresh q))"
  "fst (snd (get_news unescape cache w q))
     = snd (refresh_if_stale unescape cache w (q_refresh q))"
  "r_articles (snd (snd (get_news unescape cache w q)))
     = slice_to (q_limit q) (apply_filters q (articles (fst (get_news unescape cache w q))))"
  "total (snd (snd (get_news unescape cache w q)))
     = length (r_articles (snd (snd (get_news unescape cache w q))))"
  by (simp_all add: get_news_def Let_def split: prod.splits)

lemma length_slice_to:
  "length (slice_to limit xs) =
     (if 0 \<le> limit then min (nat limit) (length xs) else nat (int (length xs) + limit))"
  by (auto simp: slice_to_def)

lemma slice_to_all: "int (length xs) \<le> limit \<Longrightarrow> slice_to limit xs = xs"
  by (simp add: slice_to_def)

lemma slice_to_Nil: "slice_to limit [] = []"
  by (simp add: slice_to_def)

lemma apply_filters_none:
  "\<not> truthy (q_region q) \<Longrightarrow> \<not> truthy (q_language q) \<Longrightarrow> \<not> truthy (q_category q) \<Longrightarrow>
   apply_filters q arts = arts"
  by (simp add: apply_filters_def)

lemma apply_filters_unknown_region:
  assumes "q_region q = Some r" and "r \<noteq> []" and "r \<notin> set (map fst region_codes)"
  shows "allowed_regions r = []" and "apply_filters q arts = []"
proof -
  from assms(3) have "map_of region_codes r = None"
    by (simp add: map_of_eq_None_iff)
  then show a: "allowed_regions r = []" by (simp add: allowed_regions_def)
  from assms(1,2) have "truthy (q_region q)" by (simp add: truthy_def)
  with assms(1) a show "apply_filters q arts = []"
    by (simp add: apply_filters_def)
qed

lemma apply_filters_unknown_language:
  assumes "q_language q = Some l" and "l \<noteq> []" and "l \<notin> set known_languages"
    and "\<forall>a\<in>set arts. article_wf a"
  shows "apply_filters q arts = []"
proof -
  from assms(1,2) have t: "truthy (q_language q)" by (simp add: truthy_def)
  have "\<forall>a\<in>set arts. language a \<noteq> l"
    using assms(3,4) by (auto simp: article_wf_def)
  then have "filter (\<lambda>a. language a = l) xs = []" if "set xs \<subseteq> set arts" for xs
    using that by (auto simp: filter_empty_conv)
  then show ?thesis
    using t assms(1) by (simp add: apply_filters_def)
qed

lemma apply_filters_unknown_category:
  assumes "q_category q = Some c" and "c \<noteq> []" and "c \<notin> set known_categories"
    and "\<forall>a\<in>set arts. article_wf a"
  shows "apply_filters q arts = []"
proof -
  from assms(1,2) have t: "truthy (q_category q)" by (simp add: truthy_def)
  have "\<forall>a\<in>set arts. c \<notin> set (categories a)"
    using assms(3,4) by (auto simp: article_wf_def)
  then have "filter (\<lambda>a. c \<in> set (categories a)) xs = []" if "set xs \<subseteq> set arts" for xs
    using that by (auto simp: filter_empty_conv)
  then show ?thesis
    using t assms(1) by (simp add: apply_filters_def)
qed


lemma cache_valid_iff:
  "cache_valid cache now refresh \<longleftrightarrow>
     (\<exists>t. last_updated cache = Some t \<and> now - t < cache_duration)
     \<and> articles cache \<noteq> [] \<and> \<not> refresh"
  by (auto simp: cache_valid_def split: option.splits)

lemma ex_cache_hit:
  "\<not> refresh \<Longrightarrow> refresh_if_stale unescape ex_cache (ex_world 1800000000) refresh = (ex_cache, 0)"
  by (simp add: refresh_if_stale_def cache_valid_def ex_cache_def ex_world_def cache_duration_def)

lemma ex_cache_wf: "cache_wf ex_cache"
  by (simp add: cache_wf_def article_wf_def ex_cache_def ex_article_def ex_feed_b_def
      known_categories_def known_languages_def NEWS_CATEGORIES_def all_feeds_def NEWS_FEEDS_def)

lemma known_values:
  "map fst region_codes = [''swiss'', ''german'', ''international'', ''balkan'']"
  "set known_languages = {''de'', ''en'', ''sr'', ''hr''}"
  "known_categories = [''vehicles'', ''battery'', ''charging'', ''policy'', ''market'',
      ''technology'', ''infrastructure'', ''general'']"
  by (auto simp: region_codes_def known_languages_def all_feeds_def NEWS_FEEDS_def
      known_categories_def NEWS_CATEGORIES_def)

text \<open>
  C1, as the code has it. When the cache was filled less than one hour before the check,
  holds at least one article, and the request does not ask for a refresh, the request runs
  no aggregation pass and leaves the cache as it is; the response is made of the stored
  articles, filtered and cut to the limit, and is the stored list itself when no filter is
  set and the limit is at least its length. When more than one hour has passed, the request
  runs exactly one aggregation pass and stores its result with the new time.
\<close>

theorem cache_freshness:
  "(last_updated cache = Some t \<and> now_checked w - t < cache_duration \<and> articles cache \<noteq> []
      \<and> \<not> q_refresh q \<longrightarrow>
      fst (get_news unescape cache w q) = cache
      \<and> fst (snd (get_news unescape cache w q)) = 0
      \<and> r_articles (snd (snd (get_news unescape cache w q)))
          = slice_to (q_limit q) (apply_filters q (articles cache))
      \<and> (\<not> truthy (q_region q) \<and> \<not> truthy (q_language q) \<and> \<not> truthy (q_category q)
           \<and> int (length (articles cache)) \<le> q_limit q \<longrightarrow>
           r_articles (snd (snd (get_news unescape cache w q))) = articles cache))
   \<and> (last_updated cache = Some t \<and> cache_duration < now_checked w - t \<longrightarrow>
      fst (get_news unescape cache w q)
        = \<lparr>articles = fetch_all_feeds unescape (network w), last_updated = Some (now_stored w)\<rparr>
      \<and> fst (snd (get_news unescape cache w q)) = 1)
   \<and> cache_duration = 60 * 60 * 1000000"
proof -
  have hit: "fst (get_news unescape cache w q) = cache
      \<and> fst (snd (get_news unescape cache w q)) = 0
      \<and> r_articles (snd (snd (get_news unescape cache w q)))
          = slice_to (q_limit q) (apply_filters q (articles cache))
      \<and> (\<not> truthy (q_region q) \<and> \<not> truthy (q_language q) \<and> \<not> truthy (q_category q)
           \<and> int (length (articles cache)) \<le> q_limit q \<longrightarrow>
           r_articles (snd (snd (get_news unescape cache w q))) = articles cache)"
    if h: "last_updated cache = Some t \<and> now_checked w - t < cache_duration
             \<and> articles cache \<noteq> [] \<and> \<not> q_refresh q"
  proof -
    from h have "cache_valid cache (now_checked w) (q_refresh q)"
      by (simp add: cache_valid_iff)
    then have r: "refresh_if_stale unescape cache w (q_refresh q) = (cache, 0)"
      by (rule refresh_if_stale_valid)
    have c: "fst (get_news unescape cache w q) = cache" by (simp add: get_news_parts(1) r)
    have p: "fst (snd (get_news unescape cache w q)) = 0" by (simp add: get_news_parts(2) r)
    have a: "r_articles (snd (snd (get_news unescape cache w q)))
          = slice_to (q_limit q) (apply_filters q (articles cache))"
      by (simp add: get_news_parts(3) c)
    have "r_articles (snd (snd (get_news unescape cache w q))) = articles cache"
      if "\<not> truthy (q_region q) \<and> \<not> truthy (q_language q) \<and> \<not> truthy (q_category q)
           \<and> int (length (articles cache)) \<le> q_limit q"
      using that by (simp add: a apply_filters_none slice_to_all)
    with c p a show ?thesis by blast
  qed
  have miss: "fst (get_news unescape cache w q)
        = \<lparr>articles = fetch_all_feeds unescape (network w), last_updated = Some (now_stored w)\<rparr>
      \<and> fst (snd (get_news unescape cache w q)) = 1"
    if h: "last_updated cache = Some t \<and> cache_duration < now_checked w - t"
  proof -
    from h have "\<not> cache_valid cache (now_checked w) (q_refresh q)"
      by (simp add: cache_valid_iff)
    then have "refresh_if_stale unescape cache w (q_refresh q) =
      (\<lparr>articles = fetch_all_feeds unescape (network w), last_updated = Some (now_stored w)\<rparr>, 1)"
      by (rule refresh_if_stale_invalid)
    then show ?thesis by (simp add: get_news_parts)
  qed
  have d: "cache_duration = 60 * 60 * 1000000" by (simp add: cache_duration_def)
  from hit miss d show ?thesis by blast
qed

theorem cache_freshness_witness:
  "last_updated ex_cache = Some 0 \<and> now_checked (ex_world 1800000000) - 0 < cache_duration
   \<and> articles ex_cache \<noteq> [] \<and> \<not> q_refresh ex_query
   \<and> fst (get_news (\<lambda>s. s) ex_cache (ex_world 1800000000) ex_query) = ex_cache
   \<and> fst (snd (get_news (\<lambda>s. s) ex_cache (ex_world 1800000000) ex_query)) = 0
   \<and> r_articles (snd (snd (get_news (\<lambda>s. s) ex_cache (ex_world 1800000000) ex_query)))
        = articles ex_cache
   \<and> cache_duration < now_checked (ex_world 3660000000) - 0
   \<and> fst (get_news (\<lambda>s. s) ex_cache (ex_world 3660000000) ex_query)
        = \<lparr>articles = [], last_updated = Some 3660000001\<rparr>
   \<and> fst (snd (get_news (\<lambda>s. s) ex_cache (ex_world 3660000000) ex_query)) = 1"
proof -
  have a: "last_updated ex_cache = Some 0" by (simp add: ex_cache_def)
  have b: "now_checked (ex_world 1800000000) - 0 < cache_duration"
    by (simp add: ex_world_def cache_duration_def)
  have c: "articles ex_cache \<noteq> []" by (simp add: ex_cache_def)
  have d: "\<not> q_refresh ex_query" by (simp add: ex_query_def)
  have e: "\<not> truthy (q_region ex_query) \<and> \<not> truthy (q_language ex_query)
      \<and> \<not> truthy (q_category ex_query) \<and> int (length (articles ex_cache)) \<le> q_limit ex_query"
    by (simp add: ex_query_def truthy_def ex_cache_def)
  note hit = cache_freshness [where cache = ex_cache and t = 0 and w = "ex_world 1800000000"
      and q = ex_query and unescape = "\<lambda>s. s"]
  from hit a b c d e have h1: "fst (get_news (\<lambda>s. s) ex_cache (ex_world 1800000000) ex_query) = ex_cache"
    and h2: "fst (snd (get_news (\<lambda>s. s) ex_cache (ex_world 1800000000) ex_query)) = 0"
    and h3: "r_articles (snd (snd (get_news (\<lambda>s. s) ex_cache (ex_world 1800000000) ex_query)))
        = articles ex_cache"
    by blast+
  have f: "cache_duration < now_checked (ex_world 3660000000) - 0"
    by (simp add: ex_world_def cache_duration_def)
  have g: "fetch_all_feeds (\<lambda>s. s) (\<lambda>feed. Failed TransportError) = []"
    unfolding fetch_all_feeds_def
    by (rule fetch_feeds_all_fail) (simp add: source_fails_def)
  note miss = cache_freshness [where cache = ex_cache and t = 0 and w = "ex_world 3660000000"
      and q = ex_query and unescape = "\<lambda>s. s"]
  from miss a f have "fst (get_news (\<lambda>s. s) ex_cache (ex_world 3660000000) ex_query)
        = \<lparr>articles = fetch_all_feeds (\<lambda>s. s) (network (ex_world 3660000000)),
           last_updated = Some (now_stored (ex_world 3660000000))\<rparr>"
    and m2: "fst (snd (get_news (\<lambda>s. s) ex_cache (ex_world 3660000000) ex_query)) = 1"
    by blast+
  then have m1: "fst (get_news (\<lambda>s. s) ex_cache (ex_world 3660000000) ex_query)
        = \<lparr>articles = [], last_updated = Some 3660000001\<rparr>"
    by (simp add: g ex_world_def)
  from a b c d h1 h2 h3 f m1 m2 show ?thesis by blast
qed

text \<open>
  As stated, C1 fails in two ways. A cache filled less than an hour ago with an empty
  list is not valid: the request runs an aggregation pass. And the response is not the
  stored list when the limit is below its length: with two stored articles and limit 1
  it holds the first article only.
\<close>

theorem cache_freshness_counterexample:
  "last_updated (ex_cache\<lparr>articles := []\<rparr>) = Some 0
   \<and> now_checked (ex_world 1800000000) - 0 < cache_duration
   \<and> \<not> q_refresh ex_query
   \<and> fst (snd (get_news (\<lambda>s. s) (ex_cache\<lparr>articles := []\<rparr>) (ex_world 1800000000) ex_query)) = 1
   \<and> last_updated ex_cache = Some 0
   \<and> \<not> q_refresh (ex_query\<lparr>q_limit := 1\<rparr>)
   \<and> length (articles ex_cache) = 2
   \<and> length (r_articles (snd (snd (get_news (\<lambda>s. s) ex_cache (ex_world 1800000000)
        (ex_query\<lparr>q_limit := 1\<rparr>))))) = 1"
proof -
  have a: "last_updated (ex_cache\<lparr>articles := []\<rparr>) = Some 0" by (simp add: ex_cache_def)
  have b: "now_checked (ex_world 1800000000) - 0 < cache_duration"
    by (simp add: ex_world_def cache_duration_def)
  have c: "\<not> q_refresh ex_query" by (simp add: ex_query_def)
  have "\<not> cache_valid (ex_cache\<lparr>articles := []\<rparr>) (now_checked (ex_world 1800000000))
          (q_refresh ex_query)"
    by (simp add: cache_valid_iff)
  then have d: "fst (snd (get_news (\<lambda>s. s) (ex_cache\<lparr>articles := []\<rparr>) (ex_world 1800000000)
      ex_query)) = 1"
    by (simp add: get_news_parts(2) refresh_if_stale_invalid)
  have e: "last_updated ex_cache = Some 0" by (simp add: ex_cache_def)
  have f: "\<not> q_refresh (ex_query\<lparr>q_limit := 1\<rparr>)" by (simp add: ex_query_def)
  have g: "length (articles ex_cache) = 2" by (simp add: ex_cache_def)
  have "fst (get_news (\<lambda>s. s) ex_cache (ex_world 1800000000) (ex_query\<lparr>q_limit := 1\<rparr>)) = ex_cache"
    using f by (simp add: get_news_parts(1) ex_cache_hit)
  then have h: "length (r_articles (snd (snd (get_news (\<lambda>s. s) ex_cache (ex_world 1800000000)
        (ex_query\<lparr>q_limit := 1\<rparr>))))) = 1"
    by (simp add: get_news_parts(3) length_slice_to apply_filters_none truthy_def ex_query_def g)
  from a b c d e f g h show ?thesis by blast
qed

section \<open>Filters and the total of \<open>GET /news\<close>\<close>

lemma get_news_empty_value:
  assumes "apply_filters q = apply_filters q'" and "q_limit q = q_limit q'"
    and "q_refresh q = q_refresh q'"
  shows "fst (get_news unescape cache w q) = fst (get_news unescape cache w q')
     \<and> r_articles (snd (snd (get_news unescape cache w q)))
       = r_articles (snd (snd (get_news unescape cache w q')))
     \<and> total (snd (snd (get_news unescape cache w q)))
       = total (snd (snd (get_news unescape cache w q')))"
  using assms by (simp add: get_news_parts)

lemma apply_filters_empty_value:
  "q_region q = Some [] \<Longrightarrow> apply_filters q = apply_filters (q\<lparr>q_region := None\<rparr>)"
  "q_category q = Some [] \<Longrightarrow> apply_filters q = apply_filters (q\<lparr>q_category := None\<rparr>)"
  "q_language q = Some [] \<Longrightarrow> apply_filters q = apply_filters (q\<lparr>q_language := None\<rparr>)"
  by (simp_all add: apply_filters_def truthy_def fun_eq_iff)

text \<open>
  C9, as the code has it. A region value that is not empty and is not a key of the
  region table resolves to the empty list of codes, and the response holds no article and
  total 0. The same holds for a non-empty category outside the taxonomy (and \<open>general\<close>)
  and for a non-empty language no source has, on every cache whose articles were made by
  the fetcher over the registry, which the initial cache is and every request keeps. The
  request returns a response in each case. An empty value of region, category or language
  is treated as no filter: the request does what it does when that parameter is absent.
\<close>

theorem unknown_filter_values:
  "(q_region q = Some r \<and> r \<noteq> [] \<and> r \<notin> set (map fst region_codes) \<longrightarrow>
      allowed_regions r = []
      \<and> r_articles (snd (snd (get_news unescape cache w q))) = []
      \<and> total (snd (snd (get_news unescape cache w q))) = 0)
   \<and> (cache_wf cache \<and> q_category q = Some c \<and> c \<noteq> [] \<and> c \<notin> set known_categories \<longrightarrow>
      r_articles (snd (snd (get_news unescape cache w q))) = []
      \<and> total (snd (snd (get_news unescape cache w q))) = 0)
   \<and> (cache_wf cache \<and> q_language q = Some l \<and> l \<noteq> [] \<and> l \<notin> set known_languages \<longrightarrow>
      r_articles (snd (snd (get_news unescape cache w q))) = []
      \<and> total (snd (snd (get_news unescape cache w q))) = 0)
   \<and> cache_wf initial_cache
   \<and> (cache_wf cache \<longrightarrow> cache_wf (fst (get_news unescape cache w q)))
   \<and> map fst region_codes = [''swiss'', ''german'', ''international'', ''balkan'']
   \<and> set known_languages = {''de'', ''en'', ''sr'', ''hr''}
   \<and> known_categories = [''vehicles'', ''battery'', ''charging'', ''policy'', ''market'',
        ''technology'', ''infrastructure'', ''general'']
   \<and> (q_region q = Some [] \<longrightarrow>
      fst (get_news unescape cache w q)
        = fst (get_news unescape cache w (q\<lparr>q_region := None\<rparr>))
      \<and> r_articles (snd (snd (get_news unescape cache w q)))
        = r_articles (snd (snd (get_news unescape cache w (q\<lparr>q_region := None\<rparr>))))
      \<and> total (snd (snd (get_news unescape cache w q)))
        = total (snd (snd (get_news unescape cache w (q\<lparr>q_region := None\<rparr>)))))
   \<and> (q_category q = Some [] \<longrightarrow>
      fst (get_news unescape cache w q)
        = fst (get_news unescape cache w (q\<lparr>q_category := None\<rparr>))
      \<and> r_articles (snd (snd (get_news unescape cache w q)))
        = r_articles (snd (snd (get_news unescape cache w (q\<lparr>q_category := None\<rparr>))))
      \<and> total (snd (snd (get_news unescape cache w q)))
        = total (snd (snd (get_news unescape cache w (q\<lparr>q_category := None\<rparr>)))))
   \<and> (q_language q = Some [] \<longrightarrow>
      fst (get_news unescape cache w q)
        = fst (get_news unescape cache w (q\<lparr>q_language := None\<rparr>))
      \<and> r_articles (snd (snd (get_news unescape cache w q)))
        = r_articles (snd (snd (get_news unescape cache w (q\<lparr>q_language := None\<rparr>))))
      \<and> total (snd (snd (get_news unescape cache w q)))
        = total (snd (snd (get_news unescape cache w (q\<lparr>q_language := None\<rparr>)))))
   \<and> (\<not> truthy (q_region q) \<and> \<not> truthy (q_category q) \<and> \<not> truthy (q_language q) \<longrightarrow>
      r_articles (snd (snd (get_news unescape cache w q)))
        = slice_to (q_limit q) (articles (fst (get_news unescape cache w q))))"
proof -
  let ?resp = "snd (snd (get_news unescape cache w q))"
  let ?cache' = "fst (get_news unescape cache w q)"
  have empty: "r_articles ?resp = [] \<and> total ?resp = 0"
    if "apply_filters q (articles ?cache') = []"
    using that by (simp add: get_news_parts(3,4) slice_to_Nil)
  have wf': "cache_wf ?cache'" if "cache_wf cache"
    using that by (simp add: get_news_parts(1) refresh_if_stale_wf)
  have reg: "allowed_regions r = [] \<and> r_articles ?resp = [] \<and> total ?resp = 0"
    if h: "q_region q = Some r \<and> r \<noteq> [] \<and> r \<notin> set (map fst region_codes)"
  proof -
    from h have "allowed_regions r = []" and "apply_filters q (articles ?cache') = []"
      by (auto intro: apply_filters_unknown_region)
    with empty show ?thesis by blast
  qed
  have cat: "r_articles ?resp = [] \<and> total ?resp = 0"
    if h: "cache_wf cache \<and> q_category q = Some c \<and> c \<noteq> [] \<and> c \<notin> set known_categories"
  proof -
    from h wf' have "\<forall>a\<in>set (articles ?cache'). article_wf a" by (simp add: cache_wf_def)
    with h have "apply_filters q (articles ?cache') = []"
      by (intro apply_filters_unknown_category [where c = c]) simp_all
    with empty show ?thesis by blast
  qed
  have lang: "r_articles ?resp = [] \<and> total ?resp = 0"
    if h: "cache_wf cache \<and> q_language q = Some l \<and> l \<noteq> [] \<and> l \<notin> set known_languages"
  proof -
    from h wf' have "\<forall>a\<in>set (articles ?cache'). article_wf a" by (simp add: cache_wf_def)
    with h have "apply_filters q (articles ?cache') = []"
      by (intro apply_filters_unknown_language [where l = l]) simp_all
    with empty show ?thesis by blast
  qed
  have init: "cache_wf initial_cache" by (simp add: cache_wf_def initial_cache_def)
  have er: "q_region q = Some [] \<longrightarrow>
      fst (get_news unescape cache w q)
        = fst (get_news unescape cache w (q\<lparr>q_region := None\<rparr>))
      \<and> r_articles (snd (snd (get_news unescape cache w q)))
        = r_articles (snd (snd (get_news unescape cache w (q\<lparr>q_region := None\<rparr>))))
      \<and> total (snd (snd (get_news unescape cache w q)))
        = total (snd (snd (get_news unescape cache w (q\<lparr>q_region := None\<rparr>))))"
    by (intro impI get_news_empty_value apply_filters_empty_value(1)) simp_all
  have ec: "q_category q = Some [] \<longrightarrow>
      fst (get_news unescape cache w q)
        = fst (get_news unescape cache w (q\<lparr>q_category := None\<rparr>))
      \<and> r_articles (snd (snd (get_news unescape cache w q)))
        = r_articles (snd (snd (get_news unescape cache w (q\<lparr>q_category := None\<rparr>))))
      \<and> total (snd (snd (get_news unescape cache w q)))
        = total (snd (snd (get_news unescape cache w (q\<lparr>q_category := None\<rparr>))))"
    by (intro impI get_news_empty_value apply_filters_empty_value(2)) simp_all
  have el: "q_language q = Some [] \<longrightarrow>
      fst (get_news unescape cache w q)
        = fst (get_news unescape cache w (q\<lparr>q_language := None\<rparr>))
      \<and> r_articles (snd (snd (get_news unescape cache w q)))
        = r_articles (snd (snd (get_news unescape cache w (q\<lparr>q_language := None\<rparr>))))
      \<and> total (snd (snd (get_news unescape cache w q)))
        = total (snd (snd (get_news unescape cache w (q\<lparr>q_language := None\<rparr>))))"
    by (intro impI get_news_empty_value apply_filters_empty_value(3)) simp_all
  have nf: "\<not> truthy (q_region q) \<and> \<not> truthy (q_category q) \<and> \<not> truthy (q_language q) \<longrightarrow>
      r_articles ?resp = slice_to (q_limit q) (articles ?cache')"
    by (simp add: get_news_parts(3) apply_filters_none)
  have c1: "q_region q = Some r \<and> r \<noteq> [] \<and> r \<notin> set (map fst region_codes) \<longrightarrow>
      allowed_regions r = [] \<and> r_articles ?resp = [] \<and> total ?resp = 0"
    using reg by blast
  have c2: "cache_wf cache \<and> q_category q = Some c \<and> c \<noteq> [] \<and> c \<notin> set known_categories \<longrightarrow>
      r_articles ?resp = [] \<and> total ?resp = 0"
    using cat by blast
  have c3: "cache_wf cache \<and> q_language q = Some l \<and> l \<noteq> [] \<and> l \<notin> set known_languages \<longrightarrow>
      r_articles ?resp = [] \<and> total ?resp = 0"
    using lang by blast
  have c5: "cache_wf cache \<longrightarrow> cache_wf ?cache'"
    using wf' by blast
  show ?thesis
    by (rule conjI [OF c1 conjI [OF c2 conjI [OF c3 conjI [OF init conjI [OF c5
        conjI [OF known_values(1) conjI [OF known_values(2) conjI [OF known_values(3)
        conjI [OF er conjI [OF ec conjI [OF el nf]]]]]]]]]]])
qed

theorem unknown_filter_values_witness:
  "q_region (ex_query\<lparr>q_region := Some ''mars''\<rparr>) = Some ''mars'' \<and> ''mars'' \<noteq> []
   \<and> ''mars'' \<notin> set (map fst region_codes)
   \<and> r_articles (snd (snd (get_news (\<lambda>s. s) ex_cache (ex_world 1800000000)
        (ex_query\<lparr>q_region := Some ''mars''\<rparr>)))) = []
   \<and> cache_wf ex_cache
   \<and> q_category (ex_query\<lparr>q_category := Some ''sports''\<rparr>) = Some ''sports'' \<and> ''sports'' \<noteq> []
   \<and> ''sports'' \<notin> set known_categories
   \<and> total (snd (snd (get_news (\<lambda>s. s) ex_cache (ex_world 1800000000)
        (ex_query\<lparr>q_category := Some ''sports''\<rparr>)))) = 0
   \<and> q_language (ex_query\<lparr>q_language := Some ''fr''\<rparr>) = Some ''fr'' \<and> ''fr'' \<noteq> []
   \<and> ''fr'' \<notin> set known_languages
   \<and> r_articles (snd (snd (get_news (\<lambda>s. s) ex_cache (ex_world 1800000000)
        (ex_query\<lparr>q_language := Some ''fr''\<rparr>)))) = []
   \<and> cache_wf (fst (get_news (\<lambda>s. s) ex_cache (ex_world 3660000000) ex_query))
   \<and> q_category (ex_query\<lparr>q_category := Some []\<rparr>) = Some []
   \<and> r_articles (snd (snd (get_news (\<lambda>s. s) ex_cache (ex_world 1800000000)
        (ex_query\<lparr>q_category := Some []\<rparr>)))) = articles ex_cache
   \<and> q_language (ex_query\<lparr>q_language := Some []\<rparr>) = Some []
   \<and> total (snd (snd (get_news (\<lambda>s. s) ex_cache (ex_world 1800000000)
        (ex_query\<lparr>q_language := Some []\<rparr>)))) = 2
   \<and> q_region (ex_query\<lparr>q_region := Some []\<rparr>) = Some []
   \<and> fst (get_news (\<lambda>s. s) ex_cache (ex_world 1800000000) (ex_query\<lparr>q_region := Some []\<rparr>))
       = ex_cache"
proof -
  have r1: "q_region (ex_query\<lparr>q_region := Some ''mars''\<rparr>) = Some ''mars''" by simp
  have r2: "''mars'' \<noteq> []" by simp
  have r3: "''mars'' \<notin> set (map fst region_codes)" by (simp add: known_values)
  have r4: "r_articles (snd (snd (get_news (\<lambda>s. s) ex_cache (ex_world 1800000000)
        (ex_query\<lparr>q_region := Some ''mars''\<rparr>)))) = []"
    using unknown_filter_values [where q = "ex_query\<lparr>q_region := Some ''mars''\<rparr>"
        and r = "''mars''" and cache = ex_cache and w = "ex_world 1800000000"
        and unescape = "\<lambda>s. s"] r1 r2 r3
    by blast
  have w: "cache_wf ex_cache" by (rule ex_cache_wf)
  have c1: "q_category (ex_query\<lparr>q_category := Some ''sports''\<rparr>) = Some ''sports''" by simp
  have c2: "''sports'' \<noteq> []" by simp
  have c3: "''sports'' \<notin> set known_categories" by (simp add: known_values)
  have c4: "total (snd (snd (get_news (\<lambda>s. s) ex_cache (ex_world 1800000000)
        (ex_query\<lparr>q_category := Some ''sports''\<rparr>)))) = 0"
    using unknown_filter_values [where q = "ex_query\<lparr>q_category := Some ''sports''\<rparr>"
        and c = "''sports''" and cache = ex_cache and w = "ex_world 1800000000"
        and unescape = "\<lambda>s. s"] w c1 c2 c3
    by blast
  have l1: "q_language (ex_query\<lparr>q_language := Some ''fr''\<rparr>) = Some ''fr''" by simp
  have l2: "''fr'' \<noteq> []" by simp
  have l3: "''fr'' \<notin> set known_languages" by (simp add: known_values)
  have l4: "r_articles (snd (snd (get_news (\<lambda>s. s) ex_cache (ex_world 1800000000)
        (ex_query\<lparr>q_language := Some ''fr''\<rparr>)))) = []"
    using unknown_filter_values [where q = "ex_query\<lparr>q_language := Some ''fr''\<rparr>"
        and l = "''fr''" and cache = ex_cache and w = "ex_world 1800000000"
        and unescape = "\<lambda>s. s"] w l1 l2 l3
    by blast
  have k: "cache_wf (fst (get_news (\<lambda>s. s) ex_cache (ex_world 3660000000) ex_query))"
    using unknown_filter_values [where q = ex_query and cache = ex_cache
        and w = "ex_world 3660000000" and unescape = "\<lambda>s. s"] w
    by blast
  have hit: "fst (get_news (\<lambda>s. s) ex_cache (ex_world 1800000000) ex_query) = ex_cache"
    by (simp add: get_news_parts(1) ex_cache_hit ex_query_def)
  have n: "length (articles ex_cache) = 2" by (simp add: ex_cache_def)
  have plain: "r_articles (snd (snd (get_news (\<lambda>s. s) ex_cache (ex_world 1800000000) ex_query)))
      = articles ex_cache"
  proof -
    have "apply_filters ex_query (articles ex_cache) = articles ex_cache"
      by (rule apply_filters_none) (simp_all add: truthy_def ex_query_def)
    moreover have "slice_to (q_limit ex_query) (articles ex_cache) = articles ex_cache"
      by (simp add: slice_to_def ex_query_def n)
    ultimately show ?thesis by (simp add: get_news_parts(3) hit)
  qed
  have ec1: "q_category (ex_query\<lparr>q_category := Some []\<rparr>) = Some []" by simp
  have ec0: "(ex_query\<lparr>q_category := Some []\<rparr>)\<lparr>q_category := None\<rparr> = ex_query"
    by (simp add: ex_query_def)
  have "r_articles (snd (snd (get_news (\<lambda>s. s) ex_cache (ex_world 1800000000)
        (ex_query\<lparr>q_category := Some []\<rparr>))))
      = r_articles (snd (snd (get_news (\<lambda>s. s) ex_cache (ex_world 1800000000)
        ((ex_query\<lparr>q_category := Some []\<rparr>)\<lparr>q_category := None\<rparr>))))"
    using unknown_filter_values [where q = "ex_query\<lparr>q_category := Some []\<rparr>"
        and cache = ex_cache and w = "ex_world 1800000000" and unescape = "\<lambda>s. s"] ec1
    by blast
  then have ec2: "r_articles (snd (snd (get_news (\<lambda>s. s) ex_cache (ex_world 1800000000)
        (ex_query\<lparr>q_category := Some []\<rparr>)))) = articles ex_cache"
    by (simp only: ec0 plain)
  have el1: "q_language (ex_query\<lparr>q_language := Some []\<rparr>) = Some []" by simp
  have el0: "(ex_query\<lparr>q_language := Some []\<rparr>)\<lparr>q_language := None\<rparr> = ex_query"
    by (simp add: ex_query_def)
  have "total (snd (snd (get_news (\<lambda>s. s) ex_cache (ex_world 1800000000)
        (ex_query\<lparr>q_language := Some []\<rparr>))))
      = total (snd (snd (get_news (\<lambda>s. s) ex_cache (ex_world 1800000000)
        ((ex_query\<lparr>q_language := Some []\<rparr>)\<lparr>q_language := None\<rparr>))))"
    using unknown_filter_values [where q = "ex_query\<lparr>q_language := Some []\<rparr>"
        and cache = ex_cache and w = "ex_world 1800000000" and unescape = "\<lambda>s. s"] el1
    by blast
  then have el2: "total (snd (snd (get_news (\<lambda>s. s) ex_cache (ex_world 1800000000)
        (ex_query\<lparr>q_language := Some []\<rparr>)))) = 2"
    by (simp only: el0 get_news_parts(4) plain n)
  have er1: "q_region (ex_query\<lparr>q_region := Some []\<rparr>) = Some []" by simp
  have er0: "(ex_query\<lparr>q_region := Some []\<rparr>)\<lparr>q_region := None\<rparr> = ex_query"
    by (simp add: ex_query_def)
  have "fst (get_news (\<lambda>s. s) ex_cache (ex_world 1800000000)
        (ex_query\<lparr>q_region := Some []\<rparr>))
      = fst (get_news (\<lambda>s. s) ex_cache (ex_world 1800000000)
        ((ex_query\<lparr>q_region := Some []\<rparr>)\<lparr>q_region := None\<rparr>))"
    using unknown_filter_values [where q = "ex_query\<lparr>q_region := Some []\<rparr>"
        and cache = ex_cache and w = "ex_world 1800000000" and unescape = "\<lambda>s. s"] er1
    by blast
  then have er2: "fst (get_news (\<lambda>s. s) ex_cache (ex_world 1800000000)
        (ex_query\<lparr>q_region := Some []\<rparr>)) = ex_cache"
    by (simp only: er0 hit)
  show ?thesis
    by (rule conjI [OF r1 conjI [OF r2 conjI [OF r3 conjI [OF r4 conjI [OF w conjI [OF c1
        conjI [OF c2 conjI [OF c3 conjI [OF c4 conjI [OF l1 conjI [OF l2 conjI [OF l3
        conjI [OF l4 conjI [OF k conjI [OF ec1 conjI [OF ec2 conjI [OF el1 conjI [OF el2
        conjI [OF er1 er2]]]]]]]]]]]]]]]]]]])
qed

text \<open>
  As stated, C9 fails for the empty value: it is not a key of the region table, not a
  category of the taxonomy and not the language of a source, but \<open>if region:\<close>,
  \<open>if language:\<close> and \<open>if category:\<close> treat it as absent, and the request returns every
  stored article.
\<close>

theorem unknown_filter_values_counterexample:
  "[] \<notin> set (map fst region_codes)
   \<and> q_region (ex_query\<lparr>q_region := Some []\<rparr>) = Some []
   \<and> length (r_articles (snd (snd (get_news (\<lambda>s. s) ex_cache (ex_world 1800000000)
        (ex_query\<lparr>q_region := Some []\<rparr>))))) = 2
   \<and> total (snd (snd (get_news (\<lambda>s. s) ex_cache (ex_world 1800000000)
        (ex_query\<lparr>q_region := Some []\<rparr>)))) = 2
   \<and> [] \<notin> set known_categories
   \<and> q_category (ex_query\<lparr>q_category := Some []\<rparr>) = Some []
   \<and> total (snd (snd (get_news (\<lambda>s. s) ex_cache (ex_world 1800000000)
        (ex_query\<lparr>q_category := Some []\<rparr>)))) = 2
   \<and> [] \<notin> set known_languages
   \<and> q_language (ex_query\<lparr>q_language := Some []\<rparr>) = Some []
   \<and> total (snd (snd (get_news (\<lambda>s. s) ex_cache (ex_world 1800000000)
        (ex_query\<lparr>q_language := Some []\<rparr>)))) = 2"
proof -
  have hit: "fst (get_news (\<lambda>s. s) ex_cache (ex_world 1800000000) q) = ex_cache"
    if "\<not> q_refresh q" for q
    using that by (simp add: get_news_parts(1) ex_cache_hit)
  have two: "length (r_articles (snd (snd (get_news (\<lambda>s. s) ex_cache (ex_world 1800000000)
      q)))) = 2"
    if "\<not> q_refresh q" and "\<not> truthy (q_region q)" and "\<not> truthy (q_category q)"
      and "\<not> truthy (q_language q)" and "q_limit q = 50" for q
  proof -
    have "length (articles ex_cache) = 2" by (simp add: ex_cache_def)
    with that show ?thesis
      by (simp add: get_news_parts(3) hit length_slice_to apply_filters_none)
  qed
  have a: "[] \<notin> set (map fst region_codes)" by (simp add: known_values)
  have b: "q_region (ex_query\<lparr>q_region := Some []\<rparr>) = Some []" by simp
  have c: "length (r_articles (snd (snd (get_news (\<lambda>s. s) ex_cache (ex_world 1800000000)
      (ex_query\<lparr>q_region := Some []\<rparr>))))) = 2"
    by (rule two) (simp_all add: ex_query_def truthy_def)
  then have d: "total (snd (snd (get_news (\<lambda>s. s) ex_cache (ex_world 1800000000)
      (ex_query\<lparr>q_region := Some []\<rparr>)))) = 2"
    by (simp only: get_news_parts(4))
  have e: "[] \<notin> set known_categories" by (simp add: known_values)
  have f: "q_category (ex_query\<lparr>q_category := Some []\<rparr>) = Some []" by simp
  have "length (r_articles (snd (snd (get_news (\<lambda>s. s) ex_cache (ex_world 1800000000)
      (ex_query\<lparr>q_category := Some []\<rparr>))))) = 2"
    by (rule two) (simp_all add: ex_query_def truthy_def)
  then have g: "total (snd (snd (get_news (\<lambda>s. s) ex_cache (ex_world 1800000000)
      (ex_query\<lparr>q_category := Some []\<rparr>)))) = 2"
    by (simp only: get_news_parts(4))
  have h: "[] \<notin> set known_languages" by (simp add: known_values)
  have i: "q_language (ex_query\<lparr>q_language := Some []\<rparr>) = Some []" by simp
  have "length (r_articles (snd (snd (get_news (\<lambda>s. s) ex_cache (ex_world 1800000000)
      (ex_query\<lparr>q_language := Some []\<rparr>))))) = 2"
    by (rule two) (simp_all add: ex_query_def truthy_def)
  then have j: "total (snd (snd (get_news (\<lambda>s. s) ex_cache (ex_world 1800000000)
      (ex_query\<lparr>q_language := Some []\<rparr>)))) = 2"
    by (simp only: get_news_parts(4))
  show ?thesis
    by (rule conjI [OF a conjI [OF b conjI [OF c conjI [OF d conjI [OF e conjI [OF f
        conjI [OF g conjI [OF h conjI [OF i j]]]]]]]]])
qed

text \<open>
  C10, as the code has it. The total of a response is the length of the articles it
  returns, which are the filtered articles cut by \<open>articles[:limit]\<close>. For a limit that is
  not negative, total is the limit when more articles match than the limit, and the number
  of matches otherwise. A negative limit drops that many articles from the end.
\<close>

theorem total_is_returned_count:
  "total (snd (snd (get_news unescape cache w q)))
     = length (r_articles (snd (snd (get_news unescape cache w q))))
   \<and> r_articles (snd (snd (get_news unescape cache w q)))
     = slice_to (q_limit q) (apply_filters q (articles (fst (get_news unescape cache w q))))
   \<and> (0 \<le> q_limit q
        \<and> q_limit q < int (length (apply_filters q (articles (fst (get_news unescape cache w q)))))
      \<longrightarrow> int (total (snd (snd (get_news unescape cache w q)))) = q_limit q)
   \<and> (0 \<le> q_limit q
        \<and> int (length (apply_filters q (articles (fst (get_news unescape cache w q))))) \<le> q_limit q
      \<longrightarrow> total (snd (snd (get_news unescape cache w q)))
            = length (apply_filters q (articles (fst (get_news unescape cache w q)))))
   \<and> (q_limit q < 0
      \<longrightarrow> total (snd (snd (get_news unescape cache w q)))
            = nat (int (length (apply_filters q (articles (fst (get_news unescape cache w q)))))
                   + q_limit q))"
proof -
  let ?resp = "snd (snd (get_news unescape cache w q))"
  let ?m = "apply_filters q (articles (fst (get_news unescape cache w q)))"
  have t: "total ?resp = length (r_articles ?resp)" by (rule get_news_parts(4))
  have a: "r_articles ?resp = slice_to (q_limit q) ?m" by (rule get_news_parts(3))
  have len: "total ?resp =
    (if 0 \<le> q_limit q then min (nat (q_limit q)) (length ?m)
     else nat (int (length ?m) + q_limit q))"
    by (simp only: t a length_slice_to)
  have c1: "0 \<le> q_limit q \<and> q_limit q < int (length ?m) \<longrightarrow> int (total ?resp) = q_limit q"
    using len by auto
  have c2: "0 \<le> q_limit q \<and> int (length ?m) \<le> q_limit q \<longrightarrow> total ?resp = length ?m"
    using len by auto
  have c3: "q_limit q < 0 \<longrightarrow> total ?resp = nat (int (length ?m) + q_limit q)"
    using len by auto
  show ?thesis by (rule conjI [OF t conjI [OF a conjI [OF c1 conjI [OF c2 c3]]]])
qed

theorem total_is_returned_count_witness:
  "0 \<le> q_limit (ex_query\<lparr>q_limit := 1\<rparr>)
   \<and> q_limit (ex_query\<lparr>q_limit := 1\<rparr>)
       < int (length (apply_filters (ex_query\<lparr>q_limit := 1\<rparr>)
           (articles (fst (get_news (\<lambda>s. s) ex_cache (ex_world 1800000000)
              (ex_query\<lparr>q_limit := 1\<rparr>))))))
   \<and> total (snd (snd (get_news (\<lambda>s. s) ex_cache (ex_world 1800000000)
        (ex_query\<lparr>q_limit := 1\<rparr>)))) = 1
   \<and> int (length (apply_filters ex_query
           (articles (fst (get_news (\<lambda>s. s) ex_cache (ex_world 1800000000) ex_query)))))
       \<le> q_limit ex_query
   \<and> total (snd (snd (get_news (\<lambda>s. s) ex_cache (ex_world 1800000000) ex_query))) = 2
   \<and> q_limit (ex_query\<lparr>q_limit := - 5\<rparr>) < 0
   \<and> total (snd (snd (get_news (\<lambda>s. s) ex_cache (ex_world 1800000000)
        (ex_query\<lparr>q_limit := - 5\<rparr>)))) = 0"
proof -
  have hit: "fst (get_news (\<lambda>s. s) ex_cache (ex_world 1800000000) (ex_query\<lparr>q_limit := k\<rparr>))
      = ex_cache" for k
    by (simp add: get_news_parts(1) ex_cache_hit ex_query_def)
  have m: "apply_filters (ex_query\<lparr>q_limit := k\<rparr>) (articles ex_cache) = articles ex_cache" for k
    by (simp add: apply_filters_none truthy_def ex_query_def)
  have n: "length (articles ex_cache) = 2" by (simp add: ex_cache_def)
  have q50: "ex_query\<lparr>q_limit := 50\<rparr> = ex_query" by (simp add: ex_query_def)
  have a1: "0 \<le> q_limit (ex_query\<lparr>q_limit := 1\<rparr>)" by simp
  have a2: "q_limit (ex_query\<lparr>q_limit := 1\<rparr>)
       < int (length (apply_filters (ex_query\<lparr>q_limit := 1\<rparr>)
           (articles (fst (get_news (\<lambda>s. s) ex_cache (ex_world 1800000000)
              (ex_query\<lparr>q_limit := 1\<rparr>))))))"
    by (simp add: hit m n)
  have "int (total (snd (snd (get_news (\<lambda>s. s) ex_cache (ex_world 1800000000)
        (ex_query\<lparr>q_limit := 1\<rparr>))))) = q_limit (ex_query\<lparr>q_limit := 1\<rparr>)"
    using total_is_returned_count [where q = "ex_query\<lparr>q_limit := 1\<rparr>" and cache = ex_cache
        and w = "ex_world 1800000000" and unescape = "\<lambda>s. s"] a1 a2
    by blast
  then have a3: "total (snd (snd (get_news (\<lambda>s. s) ex_cache (ex_world 1800000000)
        (ex_query\<lparr>q_limit := 1\<rparr>)))) = 1"
    by simp
  have b1: "int (length (apply_filters ex_query
           (articles (fst (get_news (\<lambda>s. s) ex_cache (ex_world 1800000000) ex_query)))))
       \<le> q_limit ex_query"
    using hit [of 50] m [of 50] n by (simp add: q50) (simp add: ex_query_def)
  have b0: "0 \<le> q_limit ex_query" by (simp add: ex_query_def)
  have "total (snd (snd (get_news (\<lambda>s. s) ex_cache (ex_world 1800000000) ex_query)))
      = length (apply_filters ex_query
           (articles (fst (get_news (\<lambda>s. s) ex_cache (ex_world 1800000000) ex_query))))"
    using total_is_returned_count [where q = ex_query and cache = ex_cache
        and w = "ex_world 1800000000" and unescape = "\<lambda>s. s"] b0 b1
    by blast
  then have b2: "total (snd (snd (get_news (\<lambda>s. s) ex_cache (ex_world 1800000000) ex_query))) = 2"
    using hit [of 50] m [of 50] n by (simp add: q50)
  have c1: "q_limit (ex_query\<lparr>q_limit := - 5\<rparr>) < 0" by simp
  have "total (snd (snd (get_news (\<lambda>s. s) ex_cache (ex_world 1800000000)
        (ex_query\<lparr>q_limit := - 5\<rparr>))))
      = nat (int (length (apply_filters (ex_query\<lparr>q_limit := - 5\<rparr>)
           (articles (fst (get_news (\<lambda>s. s) ex_cache (ex_world 1800000000)
              (ex_query\<lparr>q_limit := - 5\<rparr>))))))
          + q_limit (ex_query\<lparr>q_limit := - 5\<rparr>))"
    using total_is_returned_count [where q = "ex_query\<lparr>q_limit := - 5\<rparr>" and cache = ex_cache
        and w = "ex_world 1800000000" and unescape = "\<lambda>s. s"] c1
    by blast
  then have c2: "total (snd (snd (get_news (\<lambda>s. s) ex_cache (ex_world 1800000000)
        (ex_query\<lparr>q_limit := - 5\<rparr>)))) = 0"
    by (simp add: hit m n)
  show ?thesis
    by (rule conjI [OF a1 conjI [OF a2 conjI [OF a3 conjI [OF b1 conjI [OF b2 conjI [OF c1 c2]]]]]])
qed

text \<open>
  As stated, C10 fails for a negative limit: with two matching articles and limit \<open>-1\<close>,
  more articles match than the limit, and total is 1, not the limit.
\<close>

theorem total_is_returned_count_counterexample:
  "q_limit (ex_query\<lparr>q_limit := - 1\<rparr>)
     < int (length (apply_filters (ex_query\<lparr>q_limit := - 1\<rparr>)
         (articles (fst (get_news (\<lambda>s. s) ex_cache (ex_world 1800000000)
            (ex_query\<lparr>q_limit := - 1\<rparr>))))))
   \<and> total (snd (snd (get_news (\<lambda>s. s) ex_cache (ex_world 1800000000)
        (ex_query\<lparr>q_limit := - 1\<rparr>)))) = 1
   \<and> int (total (snd (snd (get_news (\<lambda>s. s) ex_cache (ex_world 1800000000)
        (ex_query\<lparr>q_limit := - 1\<rparr>))))) \<noteq> q_limit (ex_query\<lparr>q_limit := - 1\<rparr>)"
proof -
  let ?q = "ex_query\<lparr>q_limit := - 1\<rparr>"
  have hit: "fst (get_news (\<lambda>s. s) ex_cache (ex_world 1800000000) ?q) = ex_cache"
    by (simp add: get_news_parts(1) ex_cache_hit ex_query_def)
  have m: "apply_filters ?q (articles ex_cache) = articles ex_cache"
    by (simp add: apply_filters_none truthy_def ex_query_def)
  have n: "length (articles ex_cache) = 2" by (simp add: ex_cache_def)
  have a: "q_limit ?q < int (length (apply_filters ?q
      (articles (fst (get_news (\<lambda>s. s) ex_cache (ex_world 1800000000) ?q)))))"
    by (simp add: hit m n)
  have b: "total (snd (snd (get_news (\<lambda>s. s) ex_cache (ex_world 1800000000) ?q))) = 1"
    by (simp add: get_news_parts(3,4) hit m n length_slice_to)
  then have c: "int (total (snd (snd (get_news (\<lambda>s. s) ex_cache (ex_world 1800000000) ?q))))
      \<noteq> q_limit ?q"
    by simp
  show ?thesis by (rule conjI [OF a conjI [OF b c]])
qed


end
